theory Spec2Isabelle
  imports Main "HOL-Library.AList"
begin

section \<open>The swagger model builder of go-restful (swagger/model\_builder.go)\<close>

text \<open>
  The builder walks a Go type through package \<open>reflect\<close> and fills a registry
  \<open>Models map[string]Model\<close>. The embedding has three layers:
  \<^item> the few functions of package \<open>strings\<close> the builder calls, on byte strings;
  \<^item> a description of Go types with the queries of \<open>reflect.Type\<close> that the builder
    uses (\<open>Kind\<close>, \<open>Name\<close>, \<open>String\<close>, \<open>Elem\<close>, \<open>NumField\<close>/\<open>Field\<close>, \<open>Implements\<close>);
  \<^item> the builder itself, function by function, with the registry passed explicitly.
\<close>

subsection \<open>Package strings\<close>

fun HasPrefix :: "string \<Rightarrow> string \<Rightarrow> bool" where
  "HasPrefix s [] = True"
| "HasPrefix [] (p # ps) = False"
| "HasPrefix (c # cs) (p # ps) = (c = p \<and> HasPrefix cs ps)"

text \<open>\<open>strings.Contains(s, substr)\<close>: \<open>substr\<close> occurs in \<open>s\<close> as a contiguous run of bytes.\<close>

fun Contains :: "string \<Rightarrow> string \<Rightarrow> bool" where
  "Contains [] substr = (substr = [])"
| "Contains (c # cs) substr = (HasPrefix (c # cs) substr \<or> Contains cs substr)"

text \<open>\<open>strings.Split(s, sep)\<close> for a one-byte separator; the result is never empty.\<close>

fun Split :: "string \<Rightarrow> char \<Rightarrow> string list" where
  "Split [] sep = [[]]"
| "Split (c # cs) sep =
     (if c = sep then [] # Split cs sep
      else (case Split cs sep of [] \<Rightarrow> [[c]] | p # ps \<Rightarrow> (c # p) # ps))"

text \<open>\<open>strings.Replace(key, "[]", "||", -1)\<close>: every occurrence, left to right.\<close>

fun ReplaceBrackets :: "string \<Rightarrow> string" where
  "ReplaceBrackets (a # b # cs) =
     (if a = CHR ''['' \<and> b = CHR '']'' then CHR ''|'' # CHR ''|'' # ReplaceBrackets cs
      else a # ReplaceBrackets (b # cs))"
| "ReplaceBrackets cs = cs"

text \<open>Decimal rendering of an array length, as it appears in \<open>Type.String()\<close>.\<close>

fun Itoa :: "nat \<Rightarrow> string" where
  "Itoa n = (if n < 10 then [''0123456789'' ! n] else Itoa (n div 10) @ [''0123456789'' ! (n mod 10)])"

subsection \<open>Go types as package reflect presents them\<close>

text \<open>
  A struct field carries what the builder reads of \<open>reflect.StructField\<close>: its name, its
  type, the values of the \<open>json\<close> and \<open>description\<close> keys of its tag (empty when the
  key is absent, as \<open>Tag.Get\<close> returns) and whether it is an embedded field.

  A type is a predeclared type (\<open>Basic\<close>: \<open>int\<close>, \<open>uint8\<close>, \<open>string\<close>, ...; \<open>byte\<close> and
  \<open>rune\<close> are aliases and are reported as \<open>uint8\<close> and \<open>int32\<close>), a declared type
  (\<open>Named pkg name\<close>, whose underlying type is looked up in the environment, which is
  how type graphs can be cyclic), or a type literal. A struct literal and the literals the
  builder never looks into (interfaces, functions, channels: \<open>OtherT\<close>) carry the text
  that \<open>String()\<close> reports for them.
\<close>

datatype gotype =
    Basic string
  | Named string string
  | PtrT gotype
  | SliceT gotype
  | ArrayT nat gotype
  | MapT gotype gotype
  | StructT string "StructField list"
  | OtherT string
and StructField =
    StructField (FieldName: string) (FieldType: gotype) (TagJson: string)
      (TagDescription: string) (Anonymous: bool)

datatype Kind = KStruct | KSlice | KArray | KPtr | KString | KMap | KOther

subsection \<open>The schema data model\<close>

text \<open>
  Modelled from the spec: the declarations of \<open>Model\<close>, \<open>ModelProperty\<close> and \<open>Item\<close> are
  in a file of the package that is not among the sources; the records hold the fields the
  builder reads and writes, with the types the spec's data model gives them. A Go
  \<open>*string\<close> is a \<open>string option\<close>; \<open>Properties\<close> is a Go map, kept as an association
  list with unique keys in insertion order (the builder ranges over it once, and Go leaves
  that order open: the list fixes one order). The record fields of \<open>Item\<close> are prefixed,
  since they would clash with those of \<open>ModelProperty\<close>.
\<close>

record Item =
  ItemType :: "string option"
  ItemRef :: "string option"

record ModelProperty =
  Type :: "string option"
  Format :: string
  Ref :: "string option"
  Items :: "Item option"
  Description :: string

record Model =
  ModelId :: string
  Required :: "string list"
  Properties :: "(string \<times> ModelProperty) list"

type_synonym registry = "string \<rightharpoonup> Model"

text \<open>
  The zero values Go gives a variable of struct type. The nil slice and the nil map of the
  zero Model are the empty list here.
\<close>

definition zeroProperty :: ModelProperty where
  "zeroProperty = \<lparr>Type = None, Format = [], Ref = None, Items = None, Description = []\<rparr>"

definition zeroModel :: Model where
  "zeroModel = \<lparr>ModelId = [], Required = [], Properties = []\<rparr>"

text \<open>Reading \<open>Models[k]\<close> without the comma-ok form: the zero Model when the key is absent.\<close>

definition lookupModel :: "registry \<Rightarrow> string \<Rightarrow> Model" where
  "lookupModel b k = (case b k of None \<Rightarrow> zeroModel | Some m \<Rightarrow> m)"

text \<open>
  What a call \<open>PostBuildModel(m)\<close> does. \<open>Returned\<close> is the \<open>*Model\<close> it returns
  (\<open>None\<close> for nil). The hook is handed a pointer: the Model behind it shares its
  \<open>Properties\<close> map, the array of its \<open>Required\<close> slice and the strings and Items its
  properties point to with entries of the registry, so writes of the hook through them
  change those entries as well. \<open>InPlace\<close> is that effect, on the entry under each
  name; it is the identity for a hook that writes through nothing shared. A hook has no
  access to the registry itself, so it cannot add or remove a name.
\<close>

record HookResult =
  Returned :: "Model option"
  InPlace :: "string \<Rightarrow> Model \<Rightarrow> Model"

text \<open>
  The environment of a run: the declared types, which types implement
  \<open>json.Marshaler\<close>, and which implement \<open>ModelBuildable\<close> (with their
  \<open>PostBuildModel\<close>).
\<close>

record env =
  decls :: "string \<times> string \<Rightarrow> gotype option"
  marshaler :: "gotype \<Rightarrow> bool"
  buildable :: "gotype \<Rightarrow> (Model \<Rightarrow> HookResult) option"

definition underlying :: "env \<Rightarrow> gotype \<Rightarrow> gotype" where
  "underlying e t =
     (case t of
        Named p n \<Rightarrow> (case decls e (p, n) of None \<Rightarrow> t | Some u \<Rightarrow> u)
      | _ \<Rightarrow> t)"

definition kindOf :: "env \<Rightarrow> gotype \<Rightarrow> Kind" where
  "kindOf e t =
     (case underlying e t of
        Basic n \<Rightarrow> (if n = ''string'' then KString else KOther)
      | Named p n \<Rightarrow> KOther
      | PtrT el \<Rightarrow> KPtr
      | SliceT el \<Rightarrow> KSlice
      | ArrayT k el \<Rightarrow> KArray
      | MapT k v \<Rightarrow> KMap
      | StructT s fs \<Rightarrow> KStruct
      | OtherT s \<Rightarrow> KOther)"

text \<open>
  \<open>Type.Elem()\<close>. The builder calls it only behind a test that the kind is Slice, Array or
  Ptr, so the panic of \<open>reflect\<close> on other kinds is never reached; the last case returns
  the type itself.
\<close>

definition elemOf :: "env \<Rightarrow> gotype \<Rightarrow> gotype" where
  "elemOf e t =
     (case underlying e t of
        PtrT el \<Rightarrow> el
      | SliceT el \<Rightarrow> el
      | ArrayT k el \<Rightarrow> el
      | MapT k v \<Rightarrow> v
      | _ \<Rightarrow> t)"

text \<open>The fields \<open>Field(0) .. Field(NumField()-1)\<close> of a type of kind Struct.\<close>

definition fieldsOf :: "env \<Rightarrow> gotype \<Rightarrow> StructField list" where
  "fieldsOf e t = (case underlying e t of StructT s fs \<Rightarrow> fs | _ \<Rightarrow> [])"

text \<open>\<open>Type.Name()\<close>: empty for a type literal.\<close>

fun typeName :: "gotype \<Rightarrow> string" where
  "typeName (Basic n) = n"
| "typeName (Named p n) = n"
| "typeName t = []"

text \<open>\<open>Type.String()\<close>: a declared type is qualified by its package name.\<close>

fun typeString :: "gotype \<Rightarrow> string" where
  "typeString (Basic n) = n"
| "typeString (Named p n) = p @ ''.'' @ n"
| "typeString (PtrT el) = CHR ''*'' # typeString el"
| "typeString (SliceT el) = ''[]'' @ typeString el"
| "typeString (ArrayT k el) = ''['' @ Itoa k @ '']'' @ typeString el"
| "typeString (MapT k v) = ''map['' @ typeString k @ '']'' @ typeString v"
| "typeString (StructT s fs) = s"
| "typeString (OtherT s) = s"

subsection \<open>The builder's helpers\<close>

definition primitiveNames :: string where
  "primitiveNames =
     ''uint8 uint16 uint32 uint64 int int8 int16 int32 int64 float32 float64 bool string byte rune time.Time''"

definition isPrimitiveType :: "string \<Rightarrow> bool" where
  "isPrimitiveType modelName = Contains primitiveNames modelName"

definition keyFrom :: "gotype \<Rightarrow> string" where
  "keyFrom st =
     (let key = typeString st
      in if length (typeName st) = 0 then ReplaceBrackets key else key)"

definition jsonSchemaType :: "string \<Rightarrow> string" where
  "jsonSchemaType modelName =
     (case map_of
        [(''uint8'', ''integer''), (''uint16'', ''integer''), (''uint32'', ''integer''),
         (''uint64'', ''integer''),
         (''int'', ''integer''), (''int8'', ''integer''), (''int16'', ''integer''),
         (''int32'', ''integer''), (''int64'', ''integer''),
         (''byte'', ''integer''), (''float64'', ''number''), (''float32'', ''number''),
         (''bool'', ''boolean''), (''time.Time'', ''string'')] modelName of
        None \<Rightarrow> modelName
      | Some mapped \<Rightarrow> mapped)"

definition jsonSchemaFormat :: "string \<Rightarrow> string" where
  "jsonSchemaFormat modelName =
     (case map_of
        [(''int'', ''int32''), (''int32'', ''int32''), (''int64'', ''int64''),
         (''byte'', ''byte''), (''uint8'', ''byte''), (''float64'', ''double''),
         (''float32'', ''float''), (''time.Time'', ''date-time'')] modelName of
        None \<Rightarrow> []
      | Some mapped \<Rightarrow> mapped)"

definition jsonNameOfField :: "StructField \<Rightarrow> string" where
  "jsonNameOfField field =
     (let jsonTag = TagJson field; s = Split jsonTag CHR '',''
      in if jsonTag \<noteq> [] \<and> hd s = ''-'' then []
         else if jsonTag \<noteq> [] \<and> hd s \<noteq> [] then hd s
         else FieldName field)"

definition isPropertyRequired :: "StructField \<Rightarrow> bool" where
  "isPropertyRequired field =
     (let jsonTag = TagJson field; s = Split jsonTag CHR '',''
      in if jsonTag \<noteq> [] \<and> length s > 1 \<and> s ! 1 = ''omitempty'' then False else True)"

definition hasNamedJSONTag :: "StructField \<Rightarrow> bool" where
  "hasNamedJSONTag field =
     (let parts = Split (TagJson field) CHR '',''
      in if length parts = 0 then False
         else if ''inline'' \<in> set (tl parts) then False
         else length (hd parts) > 0)"

definition getElementTypeName :: "env \<Rightarrow> string \<Rightarrow> string \<Rightarrow> gotype \<Rightarrow> string" where
  "getElementTypeName e modelName jsonName t =
     (if kindOf e t = KPtr then tl (typeString t)
      else if typeName t = [] then modelName @ ''.'' @ jsonName
      else if isPrimitiveType (typeName t) then jsonSchemaType (typeName t)
      else keyFrom t)"

subsection \<open>The recursive builder\<close>

text \<open>
  \<open>addModel\<close> and the \<open>build...Property\<close> methods call one another, and on some type
  graphs the recursion never returns. The embedding therefore bounds the depth of
  \<open>addModel\<close> calls by a fuel argument: \<open>addModel n\<close> is \<open>None\<close> when the call needs more
  than \<open>n\<close> nested \<open>addModel\<close> frames. The other methods take the \<open>addModel\<close> of the
  next depth as their first argument \<open>rec\<close>. A call returns the registry after it and,
  for \<open>addModel\<close>, the \<open>*Model\<close> result (\<open>None\<close> for nil).

  The registry entry stored before the fields are visited shares its \<open>Properties\<close> map
  with the local \<open>sm\<close> in Go. No read of the builder looks into an entry whose
  \<open>addModel\<close> call is still running (the presence test at the top of \<open>addModel\<close> reads
  the key only, and the merge of an embedded struct reads a sub-registry whose calls have
  all returned), so the placeholder is stored by value here.
\<close>

type_synonym addModelRec = "gotype \<Rightarrow> string \<Rightarrow> registry \<Rightarrow> (registry \<times> Model option) option"

text \<open>The loop \<open>for k, v := range subModel.Properties\<close> of \<open>buildStructTypeProperty\<close>.\<close>

fun mergeProperties ::
  "Model \<Rightarrow> registry \<Rightarrow> (string \<times> ModelProperty) list \<Rightarrow> registry \<times> Model \<Rightarrow> registry \<times> Model" where
  "mergeProperties subModel sub [] (b, model) = (b, model)"
| "mergeProperties subModel sub ((k, v) # kvs) (b, model) =
     (let model1 = model\<lparr>Properties := AList.update k v (Properties model)\<rparr>;
          required = (k \<in> set (Required subModel));
          model2 = (if required then model1\<lparr>Required := Required model1 @ [k]\<rparr> else model1);
          b' = (case Ref v of None \<Rightarrow> b | Some r \<Rightarrow> b(r \<mapsto> lookupModel sub r))
      in mergeProperties subModel sub kvs (b', model2))"

definition buildStructTypeProperty ::
  "addModelRec \<Rightarrow> env \<Rightarrow> StructField \<Rightarrow> string \<Rightarrow> Model \<Rightarrow> registry
     \<Rightarrow> ((string \<times> ModelProperty) \<times> registry \<times> Model) option" where
  "buildStructTypeProperty rec e field jsonName model b =
     (let fieldType = FieldType field
      in if length (typeName fieldType) = 0 then
           (let anonType = ModelId model @ ''.'' @ jsonName
            in case rec fieldType anonType b of
                 None \<Rightarrow> None
               | Some (b', r) \<Rightarrow> Some ((jsonName, zeroProperty\<lparr>Ref := Some anonType\<rparr>), b', model))
         else if FieldName field = typeName fieldType \<and> Anonymous field \<and> \<not> hasNamedJSONTag field then
           (case rec fieldType [] Map.empty of
              None \<Rightarrow> None
            | Some (sub, r) \<Rightarrow>
                (let subKey = keyFrom fieldType;
                     subModel = lookupModel sub subKey;
                     (b', model') = mergeProperties subModel sub (Properties subModel) (b, model)
                 in Some (([], zeroProperty), b', model')))
         else
           (case rec fieldType [] b of
              None \<Rightarrow> None
            | Some (b', r) \<Rightarrow>
                Some ((jsonName, zeroProperty\<lparr>Ref := Some (typeString fieldType)\<rparr>), b', model)))"

definition buildArrayTypeProperty ::
  "addModelRec \<Rightarrow> env \<Rightarrow> StructField \<Rightarrow> string \<Rightarrow> string \<Rightarrow> registry
     \<Rightarrow> ((string \<times> ModelProperty) \<times> registry) option" where
  "buildArrayTypeProperty rec e field jsonName modelName b =
     (let fieldType = FieldType field;
          elemTypeName = getElementTypeName e modelName jsonName (elemOf e fieldType);
          items = (if isPrimitiveType elemTypeName
                   then \<lparr>ItemType = Some (jsonSchemaType elemTypeName), ItemRef = None\<rparr>
                   else \<lparr>ItemType = None, ItemRef = Some elemTypeName\<rparr>);
          prop = zeroProperty\<lparr>Type := Some ''array'', Items := Some items\<rparr>;
          fieldType' = (if kindOf e (elemOf e fieldType) = KPtr then elemOf e fieldType else fieldType)
      in case rec (elemOf e fieldType') elemTypeName b of
           None \<Rightarrow> None
         | Some (b', r) \<Rightarrow> Some ((jsonName, prop), b'))"

definition buildPointerTypeProperty ::
  "addModelRec \<Rightarrow> env \<Rightarrow> StructField \<Rightarrow> string \<Rightarrow> string \<Rightarrow> registry
     \<Rightarrow> ((string \<times> ModelProperty) \<times> registry) option" where
  "buildPointerTypeProperty rec e field jsonName modelName b =
     (let fieldType = FieldType field
      in if kindOf e (elemOf e fieldType) = KSlice \<or> kindOf e (elemOf e fieldType) = KArray then
           (let elemName = getElementTypeName e modelName jsonName (elemOf e (elemOf e fieldType));
                prop = zeroProperty\<lparr>Type := Some ''array'',
                         Items := Some \<lparr>ItemType = None, ItemRef = Some elemName\<rparr>\<rparr>
            in case rec (elemOf e (elemOf e fieldType)) elemName b of
                 None \<Rightarrow> None
               | Some (b', r) \<Rightarrow> Some ((jsonName, prop), b'))
         else
           (let pType = tl (typeString fieldType);
                anonymous = (typeName (elemOf e fieldType) = []);
                elemName = (if anonymous then modelName @ ''.'' @ jsonName else []);
                prop = zeroProperty\<lparr>Ref := Some (if anonymous then elemName else pType)\<rparr>
            in case rec (elemOf e fieldType) elemName b of
                 None \<Rightarrow> None
               | Some (b', r) \<Rightarrow> Some ((jsonName, prop), b')))"

text \<open>The test \<open>len(s) > 1 && s[1] == "string"\<close> on the json tag, in \<open>buildProperty\<close>.\<close>

definition taggedAsString :: "StructField \<Rightarrow> bool" where
  "taggedAsString field =
     (let jsonTag = TagJson field; s = Split jsonTag CHR '',''
      in jsonTag \<noteq> [] \<and> length s > 1 \<and> s ! 1 = ''string'')"

definition withModel ::
  "Model \<Rightarrow> ((string \<times> ModelProperty) \<times> registry) option
     \<Rightarrow> ((string \<times> ModelProperty) \<times> registry \<times> Model) option" where
  "withModel model r = (case r of None \<Rightarrow> None | Some (np, b') \<Rightarrow> Some (np, b', model))"

definition buildProperty ::
  "addModelRec \<Rightarrow> env \<Rightarrow> StructField \<Rightarrow> Model \<Rightarrow> string \<Rightarrow> registry
     \<Rightarrow> ((string \<times> ModelProperty) \<times> registry \<times> Model) option" where
  "buildProperty rec e field model modelName b =
     (let jsonName = jsonNameOfField field;
          fieldType = FieldType field;
          fieldKind = kindOf e fieldType
      in if length jsonName = 0 then Some (([], zeroProperty), b, model)
         else if marshaler e fieldType then
           Some ((jsonName, zeroProperty\<lparr>Type := Some ''string'',
                   Format := jsonSchemaFormat (typeString fieldType)\<rparr>), b, model)
         else if taggedAsString field then
           Some ((jsonName, zeroProperty\<lparr>Type := Some ''string''\<rparr>), b, model)
         else if fieldKind = KStruct then buildStructTypeProperty rec e field jsonName model b
         else if fieldKind = KSlice \<or> fieldKind = KArray then
           withModel model (buildArrayTypeProperty rec e field jsonName modelName b)
         else if fieldKind = KPtr then
           withModel model (buildPointerTypeProperty rec e field jsonName modelName b)
         else if fieldKind = KString then
           Some ((jsonName, zeroProperty\<lparr>Type := Some ''string''\<rparr>), b, model)
         else if fieldKind = KMap then
           Some ((jsonName, zeroProperty\<lparr>Type := Some ''any''\<rparr>), b, model)
         else if isPrimitiveType (typeString fieldType) then
           Some ((jsonName, zeroProperty\<lparr>Type := Some (jsonSchemaType (typeString fieldType)),
                   Format := jsonSchemaFormat (typeString fieldType)\<rparr>), b, model)
         else if typeName fieldType = [] then
           (let nestedTypeName = modelName @ ''.'' @ jsonName
            in case rec fieldType nestedTypeName b of
                 None \<Rightarrow> None
               | Some (b', r) \<Rightarrow>
                   Some ((jsonName, zeroProperty\<lparr>Ref := Some nestedTypeName\<rparr>), b', model))
         else Some ((jsonName, zeroProperty\<lparr>Ref := Some (typeString fieldType)\<rparr>), b, model))"

text \<open>The body of the loop over the fields in \<open>addModel\<close>, on the pair of registry and \<open>sm\<close>.\<close>

definition addField ::
  "addModelRec \<Rightarrow> env \<Rightarrow> string \<Rightarrow> StructField \<Rightarrow> registry \<times> Model \<Rightarrow> (registry \<times> Model) option" where
  "addField rec e modelName field s =
     (case buildProperty rec e field (snd s) modelName (fst s) of
        None \<Rightarrow> None
      | Some ((jsonName, prop0), b', sm0) \<Rightarrow>
          (let prop = (if TagDescription field \<noteq> []
                       then prop0\<lparr>Description := TagDescription field\<rparr> else prop0)
           in if length jsonName \<noteq> 0 then
                (let sm1 = (if isPropertyRequired field
                            then sm0\<lparr>Required := Required sm0 @ [jsonName]\<rparr> else sm0)
                 in Some (b', sm1\<lparr>Properties := AList.update jsonName prop (Properties sm1)\<rparr>))
              else Some (b', sm0)))"

fun addFields ::
  "addModelRec \<Rightarrow> env \<Rightarrow> string \<Rightarrow> StructField list \<Rightarrow> registry \<times> Model \<Rightarrow> (registry \<times> Model) option" where
  "addFields rec e modelName [] s = Some s"
| "addFields rec e modelName (field # rest) s =
     (case addField rec e modelName field s of
        None \<Rightarrow> None
      | Some s' \<Rightarrow> addFields rec e modelName rest s')"

definition addModelBody ::
  "addModelRec \<Rightarrow> env \<Rightarrow> gotype \<Rightarrow> string \<Rightarrow> registry \<Rightarrow> (registry \<times> Model option) option" where
  "addModelBody rec e st nameOverride b =
     (let modelName = (if nameOverride \<noteq> [] then nameOverride else keyFrom st);
          sm = \<lparr>ModelId = modelName, Required = [], Properties = []\<rparr>;
          b1 = b(modelName \<mapsto> sm)
      in if isPrimitiveType modelName then Some (b, None)
         else if b modelName \<noteq> None then Some (b, None)
         else if kindOf e st = KSlice \<or> kindOf e st = KArray then
           (case rec (elemOf e st) [] b1 of
              None \<Rightarrow> None
            | Some (b2, r) \<Rightarrow> Some (b2, Some sm))
         else if kindOf e st \<noteq> KStruct then Some (b1, Some sm)
         else
           (case addFields rec e modelName (fieldsOf e st) (b1, sm) of
              None \<Rightarrow> None
            | Some (b2, sm') \<Rightarrow> Some (b2(modelName \<mapsto> sm'), Some sm')))"

fun addModel :: "nat \<Rightarrow> env \<Rightarrow> gotype \<Rightarrow> string \<Rightarrow> registry \<Rightarrow> (registry \<times> Model option) option" where
  "addModel 0 e st nameOverride b = None"
| "addModel (Suc n) e st nameOverride b = addModelBody (addModel n e) e st nameOverride b"

text \<open>
  \<open>addModelFrom(sample)\<close>, on the dynamic type of the sample (a nil sample, which has
  none, is not modelled). The second component of the state lists the Models that
  \<open>PostBuildModel\<close> has been called with, in order, so that the calls of the hook can be
  counted. After the hook, the entries of the registry are as its writes through the
  pointer left them, and the Model it returned is stored under its own \<open>Id\<close>; a hook
  that returns nil makes \<open>modelOrNil.Id\<close> panic.
\<close>

datatype error = NilPointerDereference

definition addModelFrom ::
  "nat \<Rightarrow> env \<Rightarrow> gotype \<Rightarrow> registry \<times> Model list \<Rightarrow> (error + registry \<times> Model list) option" where
  "addModelFrom n e sample s =
     (case addModel n e sample [] (fst s) of
        None \<Rightarrow> None
      | Some (b', None) \<Rightarrow> Some (Inr (b', snd s))
      | Some (b', Some m) \<Rightarrow>
          (case buildable e sample of
             None \<Rightarrow> Some (Inr (b', snd s))
           | Some PostBuildModel \<Rightarrow>
               (case Returned (PostBuildModel m) of
                  None \<Rightarrow> Some (Inl NilPointerDereference)
                | Some m' \<Rightarrow>
                    Some (Inr ((\<lambda>k. map_option (InPlace (PostBuildModel m) k) (b' k))
                                 (ModelId m' \<mapsto> m'),
                               snd s @ [m])))))"

subsection \<open>Reading results, and environments for concrete runs\<close>

text \<open>The property stored under \<open>jsonName\<close> in the Model registered as \<open>modelName\<close>.\<close>

definition propertyOf :: "registry \<Rightarrow> string \<Rightarrow> string \<Rightarrow> ModelProperty option" where
  "propertyOf b modelName jsonName =
     (case b modelName of None \<Rightarrow> None | Some m \<Rightarrow> map_of (Properties m) jsonName)"

text \<open>
  An environment with the given type declarations in which no type implements
  \<open>json.Marshaler\<close> or \<open>ModelBuildable\<close>.
\<close>

definition plainEnv :: "((string \<times> string) \<times> gotype) list \<Rightarrow> env" where
  "plainEnv ds = \<lparr>decls = map_of ds, marshaler = (\<lambda>t. False), buildable = (\<lambda>t. None)\<rparr>"

text \<open>A field without tags that is not embedded.\<close>

definition plainField :: "string \<Rightarrow> gotype \<Rightarrow> StructField" where
  "plainField name t = StructField name t [] [] False"

text \<open>The names on the list of \<open>isPrimitiveType\<close>: the words of its string.\<close>

definition primitiveAllowList :: "string list" where
  "primitiveAllowList = Split primitiveNames CHR '' ''"

subsection \<open>Notions used in the proofs\<close>

text \<open>The name under which \<open>addModel\<close> registers a type: the override when there is one.\<close>

definition nameOf :: "gotype \<Rightarrow> string \<Rightarrow> string" where
  "nameOf st nameOverride = (if nameOverride \<noteq> [] then nameOverride else keyFrom st)"

text \<open>The Model that \<open>addModel\<close> stores before it visits the fields.\<close>

definition placeholder :: "string \<Rightarrow> Model" where
  "placeholder modelName = \<lparr>ModelId = modelName, Required = [], Properties = []\<rparr>"

text \<open>No key is ever removed from the registry.\<close>

definition grows :: "registry \<Rightarrow> registry \<Rightarrow> bool" where
  "grows b b' = (dom b \<subseteq> dom b')"

definition recGrows :: "addModelRec \<Rightarrow> bool" where
  "recGrows rec = (\<forall>st nm b b' r. rec st nm b = Some (b', r) \<longrightarrow> grows b b')"

text \<open>
  \<open>type A struct { Self *A; E }\<close> and \<open>type E struct { Back *A }\<close> in package main: a
  struct with a pointer to itself that also embeds a struct pointing back to it.
\<close>

definition embeddedCycleEnv :: env where
  "embeddedCycleEnv =
     plainEnv [((''main'', ''A''),
                StructT ''struct { Self *main.A; main.E }''
                  [plainField ''Self'' (PtrT (Named ''main'' ''A'')),
                   StructField ''E'' (Named ''main'' ''E'') [] [] True]),
               ((''main'', ''E''),
                StructT ''struct { Back *main.A }''
                  [plainField ''Back'' (PtrT (Named ''main'' ''A''))])]"

text \<open>\<open>type A struct { Self *A }\<close> in package main, and the Model the builder makes of it.\<close>

definition selfEnv :: env where
  "selfEnv = plainEnv [((''main'', ''A''),
                StructT ''struct { Self *main.A }'' [plainField ''Self'' (PtrT (Named ''main'' ''A''))])]"

definition selfModel :: Model where
  "selfModel = \<lparr>ModelId = ''main.A'', Required = [''Self''],
       Properties = [(''Self'', \<lparr>Type = None, Format = [], Ref = Some ''main.A'', Items = None, Description = []\<rparr>)]\<rparr>"

text \<open>
  The shape of a property: a \<open>Type\<close> other than \<open>array\<close> alone, or a \<open>Ref\<close> alone, or
  \<open>Type = "array"\<close> with \<open>Items\<close> that hold exactly one of a type and a reference. A Model
  is well shaped when all its properties are, a registry when all its Models are.
\<close>

definition populated :: "Item \<Rightarrow> bool" where
  "populated it = ((ItemType it = None) \<noteq> (ItemRef it = None))"

definition shapeOK :: "ModelProperty \<Rightarrow> bool" where
  "shapeOK p =
     (case Type p of
        None \<Rightarrow> Ref p \<noteq> None \<and> Items p = None
      | Some t \<Rightarrow>
          Ref p = None \<and>
          (if t = ''array'' then (case Items p of None \<Rightarrow> False | Some it \<Rightarrow> populated it)
           else Items p = None))"

definition modelOK :: "Model \<Rightarrow> bool" where
  "modelOK m = list_all (\<lambda>kv. shapeOK (snd kv)) (Properties m)"

definition registryOK :: "registry \<Rightarrow> bool" where
  "registryOK b = (\<forall>k m. b k = Some m \<longrightarrow> modelOK m)"

definition recKeepsOK :: "addModelRec \<Rightarrow> bool" where
  "recKeepsOK rec = (\<forall>st nm b b' r. registryOK b \<longrightarrow> rec st nm b = Some (b', r) \<longrightarrow> registryOK b')"

text \<open>
  \<open>type S struct { Inner *T }\<close> and \<open>type T struct { Id int }\<close> in package main, both
  with a \<open>PostBuildModel\<close> that clears \<open>Required\<close>; and the Model the builder makes of
  \<open>S\<close> before the hook.
\<close>

definition hookEnv :: env where
  "hookEnv =
     \<lparr>decls = map_of
        [((''main'', ''S''),
          StructT ''struct { Inner *main.T }'' [plainField ''Inner'' (PtrT (Named ''main'' ''T''))]),
         ((''main'', ''T''),
          StructT ''struct { Id int }'' [plainField ''Id'' (Basic ''int'')])],
      marshaler = (\<lambda>t. False),
      buildable = (\<lambda>t. if t = Named ''main'' ''S'' \<or> t = Named ''main'' ''T''
                         then Some (\<lambda>m. \<lparr>Returned = Some (m\<lparr>Required := []\<rparr>),
                                          InPlace = (\<lambda>k entry. entry)\<rparr>)
                         else None)\<rparr>"

definition hookSampleModel :: Model where
  "hookSampleModel =
     \<lparr>ModelId = ''main.S'', Required = [''Inner''],
      Properties = [(''Inner'', \<lparr>Type = None, Format = [], Ref = Some ''main.T'', Items = None,
                                Description = []\<rparr>)]\<rparr>"

text \<open>The first comma-separated part of the json tag (empty when there is no tag).\<close>

definition tagNamePart :: "StructField \<Rightarrow> string" where
  "tagNamePart field = hd (Split (TagJson field) CHR '','')"

text \<open>
  The fields that \<open>buildProperty\<close> hands to the flattening branch of
  \<open>buildStructTypeProperty\<close>: named struct types, embedded under their own name, without
  a named json tag (and not caught earlier as a marshaler or a string-tagged field).
\<close>

definition flattened :: "env \<Rightarrow> StructField \<Rightarrow> bool" where
  "flattened e field =
     (jsonNameOfField field \<noteq> [] \<and> \<not> marshaler e (FieldType field) \<and> \<not> taggedAsString field \<and>
      kindOf e (FieldType field) = KStruct \<and> typeName (FieldType field) \<noteq> [] \<and>
      FieldName field = typeName (FieldType field) \<and> Anonymous field \<and> \<not> hasNamedJSONTag field)"

text \<open>A Model keeps the property names and the required names of another.\<close>

definition covers :: "Model \<Rightarrow> Model \<Rightarrow> bool" where
  "covers m m' =
     (fst ` set (Properties m) \<subseteq> fst ` set (Properties m') \<and> set (Required m) \<subseteq> set (Required m'))"

text \<open>
  Package main with \<open>type Outer struct { Inner }\<close>, \<open>type Inner struct { A int }\<close>,
  \<open>type Wrap struct { Link }\<close>, \<open>type Link struct { To *Leaf }\<close> and
  \<open>type Leaf struct { N int }\<close>.
\<close>

definition flatEnv :: env where
  "flatEnv =
     plainEnv [((''main'', ''Outer''),
                StructT ''struct { main.Inner }'' [StructField ''Inner'' (Named ''main'' ''Inner'') [] [] True]),
               ((''main'', ''Inner''),
                StructT ''struct { A int }'' [plainField ''A'' (Basic ''int'')]),
               ((''main'', ''Wrap''),
                StructT ''struct { main.Link }'' [StructField ''Link'' (Named ''main'' ''Link'') [] [] True]),
               ((''main'', ''Link''),
                StructT ''struct { To *main.Leaf }'' [plainField ''To'' (PtrT (Named ''main'' ''Leaf''))]),
               ((''main'', ''Leaf''),
                StructT ''struct { N int }'' [plainField ''N'' (Basic ''int'')])]"

text \<open>
  \<open>type T struct { Id int `json:",omitempty"`; Secret string `json:"-"` }\<close>, and its Model.
\<close>

definition tagEnv :: env where
  "tagEnv =
     plainEnv [((''main'', ''T''),
                StructT ''struct { Id int; Secret string }''
                  [StructField ''Id'' (Basic ''int'') '',omitempty'' [] False,
                   StructField ''Secret'' (Basic ''string'') ''-'' [] False])]"

definition tagModel :: Model where
  "tagModel =
     \<lparr>ModelId = ''main.T'', Required = [],
      Properties = [(''Id'', \<lparr>Type = Some ''integer'', Format = ''int32'', Ref = None, Items = None,
                             Description = []\<rparr>)]\<rparr>"



text \<open>One bound on the recursion returns whatever another returns.\<close>

definition recLe :: "addModelRec \<Rightarrow> addModelRec \<Rightarrow> bool" where
  "recLe rec rec' = (\<forall>st nm b r. rec st nm b = Some r \<longrightarrow> rec' st nm b = Some r)"

text \<open>\<open>type A struct { B *B }\<close> and \<open>type B struct { A *A }\<close> in package main.\<close>

definition mutualEnv :: env where
  "mutualEnv =
     plainEnv [((''main'', ''A''),
                StructT ''struct { B *main.B }'' [plainField ''B'' (PtrT (Named ''main'' ''B''))]),
               ((''main'', ''B''),
                StructT ''struct { A *main.A }'' [plainField ''A'' (PtrT (Named ''main'' ''A''))])]"

section \<open>How the calls thread the registry\<close>


lemma buildArrayTypeProperty_cases:
  assumes "buildArrayTypeProperty rec e field jsonName modelName b = Some (np, b')"
  shows "\<exists>st nm r. rec st nm b = Some (b', r)"
  using assms unfolding buildArrayTypeProperty_def Let_def
  by (auto split: option.splits)

lemma buildPointerTypeProperty_cases:
  assumes "buildPointerTypeProperty rec e field jsonName modelName b = Some (np, b')"
  shows "\<exists>st nm r. rec st nm b = Some (b', r)"
  using assms unfolding buildPointerTypeProperty_def Let_def
  by (auto split: option.splits if_splits)

lemma buildStructTypeProperty_cases:
  assumes "buildStructTypeProperty rec e field jsonName model b = Some (np, b', model')"
  shows "(model' = model \<and> (\<exists>st nm r. rec st nm b = Some (b', r))) \<or>
         (fst np = [] \<and> (\<exists>sub r. rec (FieldType field) [] Map.empty = Some (sub, r) \<and>
            mergeProperties (lookupModel sub (keyFrom (FieldType field))) sub
              (Properties (lookupModel sub (keyFrom (FieldType field)))) (b, model) = (b', model')))"
  using assms unfolding buildStructTypeProperty_def Let_def
  by (auto split: option.splits if_splits prod.splits)

lemma buildProperty_cases:
  assumes "buildProperty rec e field model modelName b = Some (np, b', model')"
  shows "(b' = b \<and> model' = model) \<or>
         (model' = model \<and> (\<exists>st nm r. rec st nm b = Some (b', r))) \<or>
         (fst np = [] \<and> (\<exists>sub r. rec (FieldType field) [] Map.empty = Some (sub, r) \<and>
            mergeProperties (lookupModel sub (keyFrom (FieldType field))) sub
              (Properties (lookupModel sub (keyFrom (FieldType field)))) (b, model) = (b', model')))"
proof -
  let ?jn = "jsonNameOfField field"
  consider
      (direct) "b' = b \<and> model' = model"
    | (struct) "buildStructTypeProperty rec e field ?jn model b = Some (np, b', model')"
    | (array) "model' = model" "buildArrayTypeProperty rec e field ?jn modelName b = Some (np, b')"
    | (pointer) "model' = model" "buildPointerTypeProperty rec e field ?jn modelName b = Some (np, b')"
    | (nested) "model' = model" "\<exists>st nm r. rec st nm b = Some (b', r)"
    using assms unfolding buildProperty_def Let_def withModel_def
    by (simp split: if_splits option.splits prod.splits) blast+
  then show ?thesis
  proof cases
    case direct
    then show ?thesis by simp
  next
    case struct
    from buildStructTypeProperty_cases[OF this] show ?thesis by blast
  next
    case array
    from array(1) buildArrayTypeProperty_cases[OF array(2)] show ?thesis by blast
  next
    case pointer
    from pointer(1) buildPointerTypeProperty_cases[OF pointer(2)] show ?thesis by blast
  next
    case nested
    then show ?thesis by blast
  qed
qed


lemma grows_refl: "grows b b"
  by (simp add: grows_def)

lemma grows_trans: "grows a b \<Longrightarrow> grows b c \<Longrightarrow> grows a c"
  by (auto simp: grows_def)

lemma grows_upd: "grows b (b(k \<mapsto> m))"
  by (auto simp: grows_def)

lemma recGrowsD: "recGrows rec \<Longrightarrow> rec st nm b = Some (b', r) \<Longrightarrow> grows b b'"
  unfolding recGrows_def by blast

lemma mergeProperties_Cons:
  "mergeProperties subModel sub ((k, v) # kvs) (b, model) =
     mergeProperties subModel sub kvs
       (case Ref v of None \<Rightarrow> b | Some r \<Rightarrow> b(r \<mapsto> lookupModel sub r),
        (if k \<in> set (Required subModel)
         then model\<lparr>Properties := AList.update k v (Properties model),
                    Required := Required model @ [k]\<rparr>
         else model\<lparr>Properties := AList.update k v (Properties model)\<rparr>))"
  by (simp add: Let_def)

lemma mergeProperties_grows:
  "mergeProperties subModel sub kvs (b, model) = (b', model') \<Longrightarrow> grows b b'"
proof (induction kvs arbitrary: b model)
  case Nil
  then show ?case by (simp add: grows_refl)
next
  case (Cons kv kvs)
  obtain k v where kv: "kv = (k, v)" by (cases kv)
  let ?b1 = "case Ref v of None \<Rightarrow> b | Some r \<Rightarrow> b(r \<mapsto> lookupModel sub r)"
  have "grows b ?b1" by (cases "Ref v") (simp_all add: grows_refl grows_upd)
  moreover have "grows ?b1 b'"
    using Cons.prems unfolding kv mergeProperties_Cons by (rule Cons.IH)
  ultimately show ?case by (rule grows_trans)
qed

lemma buildProperty_grows:
  assumes rec: "recGrows rec"
    and run: "buildProperty rec e field model modelName b = Some (np, b', model')"
  shows "grows b b'"
  using buildProperty_cases[OF run]
  by (auto intro: grows_refl dest: recGrowsD[OF rec] mergeProperties_grows)



lemma addField_cases:
  assumes "addField rec e modelName field s = Some s'"
  shows "\<exists>jn p sm0. buildProperty rec e field (snd s) modelName (fst s) = Some ((jn, p), fst s', sm0) \<and>
           (if jn = [] then snd s' = sm0
            else snd s' = sm0\<lparr>Required := (if isPropertyRequired field then Required sm0 @ [jn] else Required sm0),
                   Properties := AList.update jn
                     (if TagDescription field \<noteq> [] then p\<lparr>Description := TagDescription field\<rparr> else p)
                     (Properties sm0)\<rparr>)"
proof (cases "buildProperty rec e field (snd s) modelName (fst s)")
  case None
  with assms show ?thesis by (simp add: addField_def)
next
  case (Some res)
  obtain jn p b1 sm0 where res: "res = ((jn, p), b1, sm0)" by (cases res) auto
  show ?thesis
  proof (cases "jn = []")
    case True
    with assms Some res show ?thesis by (simp add: addField_def Let_def)
  next
    case False
    with assms Some res have "s' = (b1,
        (if isPropertyRequired field then sm0\<lparr>Required := Required sm0 @ [jn]\<rparr> else sm0)
          \<lparr>Properties := AList.update jn
             (if TagDescription field \<noteq> [] then p\<lparr>Description := TagDescription field\<rparr> else p)
             (Properties (if isPropertyRequired field then sm0\<lparr>Required := Required sm0 @ [jn]\<rparr> else sm0))\<rparr>)"
      by (simp add: addField_def Let_def)
    with Some res False show ?thesis by (cases "isPropertyRequired field") simp_all
  qed
qed

lemma addField_grows:
  assumes "recGrows rec" and "addField rec e modelName field s = Some s'"
  shows "grows (fst s) (fst s')"
  using addField_cases[OF assms(2)] buildProperty_grows[OF assms(1)] by blast

lemma addFields_Cons_Some:
  assumes "addFields rec e modelName (f # fs) s = Some s'"
  obtains s1 where "addField rec e modelName f s = Some s1" "addFields rec e modelName fs s1 = Some s'"
  using assms by (cases "addField rec e modelName f s") simp_all

lemma addFields_grows:
  assumes "recGrows rec"
  shows "addFields rec e modelName fs s = Some s' \<Longrightarrow> grows (fst s) (fst s')"
proof (induction fs arbitrary: s)
  case Nil
  then show ?case by (simp add: grows_refl)
next
  case (Cons f fs)
  from Cons.prems obtain s1 where s1: "addField rec e modelName f s = Some s1"
    and rest: "addFields rec e modelName fs s1 = Some s'"
    by (rule addFields_Cons_Some)
  from addField_grows[OF assms s1] Cons.IH[OF rest] show ?case by (rule grows_trans)
qed


lemma addModelBody_skip:
  "isPrimitiveType (nameOf st no) \<or> b (nameOf st no) \<noteq> None \<Longrightarrow>
   addModelBody rec e st no b = Some (b, None)"
  unfolding addModelBody_def Let_def nameOf_def[symmetric] by auto

lemma addModelBody_list:
  "\<not> isPrimitiveType (nameOf st no) \<Longrightarrow> b (nameOf st no) = None \<Longrightarrow>
   kindOf e st = KSlice \<or> kindOf e st = KArray \<Longrightarrow>
   addModelBody rec e st no b =
     (case rec (elemOf e st) [] (b(nameOf st no \<mapsto> placeholder (nameOf st no))) of
        None \<Rightarrow> None
      | Some (b2, r) \<Rightarrow> Some (b2, Some (placeholder (nameOf st no))))"
  unfolding addModelBody_def Let_def nameOf_def[symmetric] placeholder_def[symmetric] by simp

lemma addModelBody_other:
  "\<not> isPrimitiveType (nameOf st no) \<Longrightarrow> b (nameOf st no) = None \<Longrightarrow>
   kindOf e st \<noteq> KSlice \<Longrightarrow> kindOf e st \<noteq> KArray \<Longrightarrow> kindOf e st \<noteq> KStruct \<Longrightarrow>
   addModelBody rec e st no b =
     Some (b(nameOf st no \<mapsto> placeholder (nameOf st no)), Some (placeholder (nameOf st no)))"
  unfolding addModelBody_def Let_def nameOf_def[symmetric] placeholder_def[symmetric] by simp

lemma addModelBody_struct:
  "\<not> isPrimitiveType (nameOf st no) \<Longrightarrow> b (nameOf st no) = None \<Longrightarrow>
   kindOf e st = KStruct \<Longrightarrow>
   addModelBody rec e st no b =
     (case addFields rec e (nameOf st no) (fieldsOf e st)
             (b(nameOf st no \<mapsto> placeholder (nameOf st no)), placeholder (nameOf st no)) of
        None \<Rightarrow> None
      | Some (b2, sm') \<Rightarrow> Some (b2(nameOf st no \<mapsto> sm'), Some sm'))"
  unfolding addModelBody_def Let_def nameOf_def[symmetric] placeholder_def[symmetric] by simp

lemma addModelBody_cases [consumes 1, case_names skip list other struct]:
  assumes run: "addModelBody rec e st no b = Some (b', r)"
  obtains
    (skip) "isPrimitiveType (nameOf st no) \<or> b (nameOf st no) \<noteq> None" "b' = b" "r = None"
  | (list) r' where "\<not> isPrimitiveType (nameOf st no)" "b (nameOf st no) = None"
      "kindOf e st = KSlice \<or> kindOf e st = KArray"
      "rec (elemOf e st) [] (b(nameOf st no \<mapsto> placeholder (nameOf st no))) = Some (b', r')"
      "r = Some (placeholder (nameOf st no))"
  | (other) "\<not> isPrimitiveType (nameOf st no)" "b (nameOf st no) = None"
      "b' = b(nameOf st no \<mapsto> placeholder (nameOf st no))" "r = Some (placeholder (nameOf st no))"
      "kindOf e st \<noteq> KStruct"
  | (struct) b2 sm' where "\<not> isPrimitiveType (nameOf st no)" "b (nameOf st no) = None"
      "kindOf e st = KStruct"
      "addFields rec e (nameOf st no) (fieldsOf e st)
         (b(nameOf st no \<mapsto> placeholder (nameOf st no)), placeholder (nameOf st no)) = Some (b2, sm')"
      "b' = b2(nameOf st no \<mapsto> sm')" "r = Some sm'"
proof (cases "isPrimitiveType (nameOf st no) \<or> b (nameOf st no) \<noteq> None")
  case True
  have "addModelBody rec e st no b = Some (b, None)" using True by (rule addModelBody_skip)
  with run True show ?thesis by (intro skip) simp_all
next
  case False
  then have np: "\<not> isPrimitiveType (nameOf st no)" and nb: "b (nameOf st no) = None" by simp_all
  show ?thesis
  proof (cases "kindOf e st = KSlice \<or> kindOf e st = KArray")
    case True
    from run show ?thesis
      unfolding addModelBody_list[where b=b and st=st and no=no and e=e, OF np nb True]
      by (cases "rec (elemOf e st) [] (b(nameOf st no \<mapsto> placeholder (nameOf st no)))")
         (auto intro: list[OF np nb True])
  next
    case notlist: False
    show ?thesis
    proof (cases "kindOf e st = KStruct")
      case True
      from run show ?thesis
        unfolding addModelBody_struct[where b=b and st=st and no=no and e=e, OF np nb True]
        by (cases "addFields rec e (nameOf st no) (fieldsOf e st)
             (b(nameOf st no \<mapsto> placeholder (nameOf st no)), placeholder (nameOf st no))")
           (auto intro: struct[OF np nb True])
    next
      case False
      with notlist np nb have "addModelBody rec e st no b =
          Some (b(nameOf st no \<mapsto> placeholder (nameOf st no)), Some (placeholder (nameOf st no)))"
        by (intro addModelBody_other) simp_all
      with run np nb False show ?thesis by (intro other) auto
    qed
  qed
qed


lemma addModelBody_grows:
  assumes rec: "recGrows rec"
    and run: "addModelBody rec e st no b = Some (b', r)"
  shows "grows b b'"
  using run
proof (cases rule: addModelBody_cases)
  case skip
  then show ?thesis by (simp add: grows_refl)
next
  case (list r')
  from recGrowsD[OF rec list(4)] show ?thesis by (rule grows_trans[OF grows_upd])
next
  case other
  then show ?thesis by (simp add: grows_upd)
next
  case (struct b2 sm')
  from addFields_grows[OF rec struct(4)]
  have "grows (b(nameOf st no \<mapsto> placeholder (nameOf st no))) b2" by simp
  then have "grows b b2" by (rule grows_trans[OF grows_upd])
  then show ?thesis unfolding struct(5) by (rule grows_trans) (rule grows_upd)
qed

lemma addModel_recGrows: "recGrows (addModel n e)"
proof (induction n)
  case 0
  then show ?case by (simp add: recGrows_def)
next
  case (Suc n)
  show ?case
    unfolding recGrows_def
  proof (intro allI impI)
    fix st nm b b' r
    assume "addModel (Suc n) e st nm b = Some (b', r)"
    then have "addModelBody (addModel n e) e st nm b = Some (b', r)" by simp
    from addModelBody_grows[OF Suc this] show "grows b b'" .
  qed
qed

lemma addModel_registers:
  assumes "addModel n e st no b = Some (b', r)"
  shows "isPrimitiveType (nameOf st no) \<or> b' (nameOf st no) \<noteq> None"
proof (cases n)
  case 0
  with assms show ?thesis by simp
next
  case (Suc m)
  with assms have run: "addModelBody (addModel m e) e st no b = Some (b', r)" by simp
  then show ?thesis
  proof (cases rule: addModelBody_cases)
    case skip
    then show ?thesis by auto
  next
    case (list r')
    from recGrowsD[OF addModel_recGrows list(4)] show ?thesis by (auto simp: grows_def)
  next
    case other
    then show ?thesis by simp
  next
    case (struct b2 sm')
    then show ?thesis by simp
  qed
qed

lemma addModel_present:
  assumes "isPrimitiveType (nameOf st no) \<or> b (nameOf st no) \<noteq> None"
  shows "addModel (Suc n) e st no b = Some (b, None)"
  using assms by (simp add: addModelBody_skip)

lemma plainField_sel:
  "FieldName (plainField n t) = n" "FieldType (plainField n t) = t" "TagJson (plainField n t) = []"
  "TagDescription (plainField n t) = []" "Anonymous (plainField n t) = False"
  by (simp_all add: plainField_def)

lemma cyc_facts:
  "\<not> isPrimitiveType ''main.A''" "\<not> isPrimitiveType ''main.E''"
  "keyFrom (Named ''main'' ''A'') = ''main.A''" "keyFrom (Named ''main'' ''E'') = ''main.E''"
  "kindOf embeddedCycleEnv (Named ''main'' ''A'') = KStruct"
  "kindOf embeddedCycleEnv (Named ''main'' ''E'') = KStruct"
  "kindOf embeddedCycleEnv (PtrT (Named ''main'' ''A'')) = KPtr"
  "elemOf embeddedCycleEnv (PtrT (Named ''main'' ''A'')) = Named ''main'' ''A''"
  "fieldsOf embeddedCycleEnv (Named ''main'' ''A'') =
     [plainField ''Self'' (PtrT (Named ''main'' ''A'')), StructField ''E'' (Named ''main'' ''E'') [] [] True]"
  "fieldsOf embeddedCycleEnv (Named ''main'' ''E'') = [plainField ''Back'' (PtrT (Named ''main'' ''A''))]"
  "marshaler embeddedCycleEnv t = False"
  "jsonNameOfField (plainField ''Self'' t) = ''Self''"
  "jsonNameOfField (plainField ''Back'' t) = ''Back''"
  "jsonNameOfField (StructField ''E'' t [] [] True) = ''E''"
  "\<not> taggedAsString (plainField n t)"
  "\<not> taggedAsString (StructField ''E'' t [] [] True)"
  "\<not> hasNamedJSONTag (StructField ''E'' t [] [] True)"
  by (simp_all add: isPrimitiveType_def primitiveNames_def keyFrom_def kindOf_def underlying_def
      embeddedCycleEnv_def plainEnv_def elemOf_def fieldsOf_def jsonNameOfField_def plainField_def
      taggedAsString_def hasNamedJSONTag_def)

lemma back_field_none:
  assumes "rec (Named ''main'' ''A'') [] b = None"
  shows "addField rec embeddedCycleEnv mn (plainField ''Back'' (PtrT (Named ''main'' ''A''))) (b, sm) = None"
  using assms
  by (simp add: addField_def buildProperty_def cyc_facts buildPointerTypeProperty_def withModel_def
      plainField_sel Let_def)

lemma embedded_field_none:
  assumes "rec (Named ''main'' ''E'') [] Map.empty = None"
  shows "addField rec embeddedCycleEnv mn (StructField ''E'' (Named ''main'' ''E'') [] [] True) s = None"
  using assms
  by (simp add: addField_def buildProperty_def cyc_facts buildStructTypeProperty_def Let_def)

lemma embedded_cycle_none:
  "b ''main.A'' = None \<Longrightarrow> addModel n embeddedCycleEnv (Named ''main'' ''A'') [] b = None"
proof (induction n arbitrary: b rule: less_induct)
  case (less n)
  show ?case
  proof (cases n)
    case 0
    then show ?thesis by simp
  next
    case (Suc m)
    have E: "addModel m embeddedCycleEnv (Named ''main'' ''E'') [] Map.empty = None"
    proof (cases m)
      case 0
      then show ?thesis by simp
    next
      case (Suc k)
      have "addModel k embeddedCycleEnv (Named ''main'' ''A'') []
              (Map.empty(''main.E'' \<mapsto> \<lparr>ModelId = ''main.E'', Required = [], Properties = []\<rparr>)) = None"
        using less.IH[of k] Suc \<open>n = Suc m\<close> by simp
      then show ?thesis
        using Suc by (simp add: addModelBody_def cyc_facts back_field_none Let_def)
    qed
    show ?thesis
      using Suc less.prems
      by (simp add: addModelBody_def cyc_facts
          embedded_field_none[of "addModel m embeddedCycleEnv", OF E] Let_def split: option.splits)
  qed
qed

lemma self_run:
  "addModel (Suc (Suc 0)) selfEnv (Named ''main'' ''A'') [] Map.empty =
     Some (Map.empty(''main.A'' \<mapsto> selfModel), Some selfModel)"
  by (simp add: addModelBody_def Let_def selfEnv_def plainEnv_def keyFrom_def isPrimitiveType_def
      primitiveNames_def kindOf_def underlying_def fieldsOf_def elemOf_def addField_def
      buildProperty_def buildPointerTypeProperty_def withModel_def plainField_def
      jsonNameOfField_def taggedAsString_def isPropertyRequired_def zeroProperty_def selfModel_def)

section \<open>The shape of the properties\<close>

lemma jsonSchemaType_array: "jsonSchemaType s = ''array'' \<Longrightarrow> s = ''array''"
  unfolding jsonSchemaType_def by (simp split: if_splits)

lemma not_primitive_array: "\<not> isPrimitiveType ''array''"
  by (simp add: isPrimitiveType_def primitiveNames_def)

lemma primitive_type_not_array: "isPrimitiveType s \<Longrightarrow> jsonSchemaType s \<noteq> ''array''"
  using jsonSchemaType_array not_primitive_array by blast

lemma shapeOK_simple:
  "t \<noteq> ''array'' \<Longrightarrow> shapeOK (zeroProperty\<lparr>Type := Some t, Format := f\<rparr>)"
  "t \<noteq> ''array'' \<Longrightarrow> shapeOK (zeroProperty\<lparr>Type := Some t\<rparr>)"
  "shapeOK (zeroProperty\<lparr>Ref := Some r\<rparr>)"
  "populated it \<Longrightarrow> shapeOK (zeroProperty\<lparr>Type := Some ''array'', Items := Some it\<rparr>)"
  by (simp_all add: shapeOK_def zeroProperty_def)

lemma shapeOK_Description: "shapeOK (p\<lparr>Description := d\<rparr>) = shapeOK p"
  by (simp add: shapeOK_def split: option.splits)

lemma buildArrayTypeProperty_shape:
  assumes "buildArrayTypeProperty rec e field jsonName modelName b = Some (np, b')"
  shows "shapeOK (snd np)"
  using assms unfolding buildArrayTypeProperty_def Let_def
  by (auto split: option.splits intro!: shapeOK_simple simp: populated_def)

lemma buildPointerTypeProperty_shape:
  assumes "buildPointerTypeProperty rec e field jsonName modelName b = Some (np, b')"
  shows "shapeOK (snd np)"
  using assms unfolding buildPointerTypeProperty_def Let_def
  by (auto split: option.splits if_splits intro!: shapeOK_simple simp: populated_def)

lemma buildStructTypeProperty_shape:
  assumes "buildStructTypeProperty rec e field jsonName model b = Some (np, b', model')"
    and "fst np \<noteq> []"
  shows "shapeOK (snd np)"
  using assms unfolding buildStructTypeProperty_def Let_def
  by (auto split: option.splits if_splits prod.splits intro!: shapeOK_simple)


lemma withModel_Some:
  "withModel model r = Some (np, b', model') \<longleftrightarrow> (r = Some (np, b') \<and> model' = model)"
  by (cases r) (auto simp: withModel_def)

lemma buildProperty_branches [consumes 1, case_names skipped direct struct array pointer nested]:
  assumes run: "buildProperty rec e field model modelName b = Some (np, b', model')"
  obtains
    (skipped) "jsonNameOfField field = []" "np = ([], zeroProperty)" "b' = b" "model' = model"
  | (direct) p where "jsonNameOfField field \<noteq> []" "np = (jsonNameOfField field, p)"
      "b' = b" "model' = model"
      "(\<exists>t f. t \<noteq> ''array'' \<and> p = zeroProperty\<lparr>Type := Some t, Format := f\<rparr>) \<or>
       (\<exists>r. p = zeroProperty\<lparr>Ref := Some r\<rparr>)"
  | (struct) "jsonNameOfField field \<noteq> []" "kindOf e (FieldType field) = KStruct"
      "\<not> marshaler e (FieldType field)" "\<not> taggedAsString field"
      "buildStructTypeProperty rec e field (jsonNameOfField field) model b = Some (np, b', model')"
  | (array) "jsonNameOfField field \<noteq> []" "model' = model"
      "buildArrayTypeProperty rec e field (jsonNameOfField field) modelName b = Some (np, b')"
  | (pointer) "jsonNameOfField field \<noteq> []" "model' = model"
      "buildPointerTypeProperty rec e field (jsonNameOfField field) modelName b = Some (np, b')"
  | (nested) r where "jsonNameOfField field \<noteq> []" "model' = model"
      "np = (jsonNameOfField field,
             zeroProperty\<lparr>Ref := Some (modelName @ ''.'' @ jsonNameOfField field)\<rparr>)"
      "rec (FieldType field) (modelName @ ''.'' @ jsonNameOfField field) b = Some (b', r)"
proof -
  let ?jn = "jsonNameOfField field"
  let ?ft = "FieldType field"
  have typed: "\<And>t f. t \<noteq> ''array'' \<Longrightarrow> ?jn \<noteq> [] \<Longrightarrow>
      Some ((?jn, zeroProperty\<lparr>Type := Some t, Format := f\<rparr>), b, model) = Some (np, b', model')
      \<Longrightarrow> thesis"
    by (rule direct[of "zeroProperty\<lparr>Type := Some t, Format := f\<rparr>" for t f]) auto
  have typed0: "\<And>t. t \<noteq> ''array'' \<Longrightarrow> ?jn \<noteq> [] \<Longrightarrow>
      Some ((?jn, zeroProperty\<lparr>Type := Some t\<rparr>), b, model) = Some (np, b', model')
      \<Longrightarrow> thesis"
    using typed[of _ "[]"] by (simp add: zeroProperty_def)
  show thesis
  proof (cases "?jn = []")
    case True
    with run show ?thesis by (intro skipped) (simp_all add: buildProperty_def)
  next
    case jn: False
    show ?thesis
    proof (cases "marshaler e ?ft")
      case True
      with run jn show ?thesis by (intro typed[of "''string''" "jsonSchemaFormat (typeString ?ft)"]) (simp_all add: buildProperty_def)
    next
      case m: False
      show ?thesis
      proof (cases "taggedAsString field")
        case True
        with run jn m show ?thesis
          by (intro typed0[of "''string''"]) (simp_all add: buildProperty_def)
      next
        case ts: False
        have eq: "buildProperty rec e field model modelName b =
          (if kindOf e ?ft = KStruct then buildStructTypeProperty rec e field ?jn model b
           else if kindOf e ?ft = KSlice \<or> kindOf e ?ft = KArray then
             withModel model (buildArrayTypeProperty rec e field ?jn modelName b)
           else if kindOf e ?ft = KPtr then
             withModel model (buildPointerTypeProperty rec e field ?jn modelName b)
           else if kindOf e ?ft = KString then
             Some ((?jn, zeroProperty\<lparr>Type := Some ''string''\<rparr>), b, model)
           else if kindOf e ?ft = KMap then
             Some ((?jn, zeroProperty\<lparr>Type := Some ''any''\<rparr>), b, model)
           else if isPrimitiveType (typeString ?ft) then
             Some ((?jn, zeroProperty\<lparr>Type := Some (jsonSchemaType (typeString ?ft)),
                     Format := jsonSchemaFormat (typeString ?ft)\<rparr>), b, model)
           else if typeName ?ft = [] then
             (case rec ?ft (modelName @ ''.'' @ ?jn) b of
                None \<Rightarrow> None
              | Some (b', r) \<Rightarrow>
                  Some ((?jn, zeroProperty\<lparr>Ref := Some (modelName @ ''.'' @ ?jn)\<rparr>), b', model))
           else Some ((?jn, zeroProperty\<lparr>Ref := Some (typeString ?ft)\<rparr>), b, model))"
          using jn m ts unfolding buildProperty_def Let_def by simp
        show ?thesis
        proof (cases "kindOf e ?ft")
          case KStruct
          with run eq jn m ts show ?thesis by (intro struct) simp_all
        next
          case KSlice
          with run eq jn show ?thesis by (intro array) (simp_all add: withModel_Some)
        next
          case KArray
          with run eq jn show ?thesis by (intro array) (simp_all add: withModel_Some)
        next
          case KPtr
          with run eq jn show ?thesis by (intro pointer) (simp_all add: withModel_Some)
        next
          case KString
          with run eq jn show ?thesis by (intro typed0[of "''string''"]) simp_all
        next
          case KMap
          with run eq jn show ?thesis by (intro typed0[of "''any''"]) simp_all
        next
          case KOther
          show ?thesis
          proof (cases "isPrimitiveType (typeString ?ft)")
            case True
            with run eq jn KOther show ?thesis
              by (intro typed[of "jsonSchemaType (typeString ?ft)" "jsonSchemaFormat (typeString ?ft)"])
                 (simp_all add: primitive_type_not_array)
          next
            case np: False
            show ?thesis
            proof (cases "typeName ?ft = []")
              case True
              with run eq jn KOther np show ?thesis
                by (cases "rec ?ft (modelName @ ''.'' @ ?jn) b") (auto intro: nested)
            next
              case False
              with run eq jn KOther np show ?thesis
                by (intro direct[of "zeroProperty\<lparr>Ref := Some (typeString ?ft)\<rparr>"]) auto
            qed
          qed
        qed
      qed
    qed
  qed
qed


lemma buildStructTypeProperty_branches [consumes 1, case_names anonymous embedded simple]:
  assumes run: "buildStructTypeProperty rec e field jsonName model b = Some (np, b', model')"
  obtains
    (anonymous) r where "typeName (FieldType field) = []" "model' = model"
      "np = (jsonName, zeroProperty\<lparr>Ref := Some (ModelId model @ ''.'' @ jsonName)\<rparr>)"
      "rec (FieldType field) (ModelId model @ ''.'' @ jsonName) b = Some (b', r)"
  | (embedded) sub r where "typeName (FieldType field) \<noteq> []"
      "FieldName field = typeName (FieldType field)" "Anonymous field" "\<not> hasNamedJSONTag field"
      "rec (FieldType field) [] Map.empty = Some (sub, r)" "np = ([], zeroProperty)"
      "mergeProperties (lookupModel sub (keyFrom (FieldType field))) sub
         (Properties (lookupModel sub (keyFrom (FieldType field)))) (b, model) = (b', model')"
  | (simple) r where "typeName (FieldType field) \<noteq> []"
      "\<not> (FieldName field = typeName (FieldType field) \<and> Anonymous field \<and> \<not> hasNamedJSONTag field)"
      "model' = model" "np = (jsonName, zeroProperty\<lparr>Ref := Some (typeString (FieldType field))\<rparr>)"
      "rec (FieldType field) [] b = Some (b', r)"
proof (cases "typeName (FieldType field) = []")
  case True
  with run show ?thesis
    unfolding buildStructTypeProperty_def Let_def
    by (cases "rec (FieldType field) (ModelId model @ ''.'' @ jsonName) b") (auto intro: anonymous)
next
  case named: False
  show ?thesis
  proof (cases "FieldName field = typeName (FieldType field) \<and> Anonymous field \<and> \<not> hasNamedJSONTag field")
    case True
    with run named show ?thesis
      unfolding buildStructTypeProperty_def Let_def
      by (cases "rec (FieldType field) [] Map.empty")
         (auto intro: embedded split: prod.splits)
  next
    case False
    with run named show ?thesis
      unfolding buildStructTypeProperty_def Let_def
      by (cases "rec (FieldType field) [] b") (auto intro: simple)
  qed
qed

lemma registryOK_empty: "registryOK Map.empty"
  by (simp add: registryOK_def)

lemma registryOK_upd: "registryOK b \<Longrightarrow> modelOK m \<Longrightarrow> registryOK (b(k \<mapsto> m))"
  by (simp add: registryOK_def)

lemma modelOK_zero: "modelOK zeroModel"
  by (simp add: modelOK_def zeroModel_def)

lemma modelOK_placeholder: "modelOK (placeholder n)"
  by (simp add: modelOK_def placeholder_def)

lemma modelOK_lookup: "registryOK b \<Longrightarrow> modelOK (lookupModel b k)"
  by (cases "b k") (auto simp: lookupModel_def registryOK_def modelOK_zero)

lemma list_all_update:
  "list_all P xs \<Longrightarrow> P (k, v) \<Longrightarrow> list_all P (AList.update k v xs)"
  by (induction xs) auto

lemma modelOK_update:
  "modelOK m \<Longrightarrow> shapeOK p \<Longrightarrow> modelOK (m\<lparr>Properties := AList.update k p (Properties m)\<rparr>)"
  by (simp add: modelOK_def list_all_update)

lemma modelOK_Required: "modelOK (m\<lparr>Required := r\<rparr>) = modelOK m"
  by (simp add: modelOK_def)

lemma recKeepsOKD:
  "recKeepsOK rec \<Longrightarrow> registryOK b \<Longrightarrow> rec st nm b = Some (b', r) \<Longrightarrow> registryOK b'"
  unfolding recKeepsOK_def by blast

lemma mergeProperties_ok:
  assumes sub: "registryOK sub"
  shows "mergeProperties subModel sub kvs (b, model) = (b', model') \<Longrightarrow>
         list_all (\<lambda>kv. shapeOK (snd kv)) kvs \<Longrightarrow> registryOK b \<Longrightarrow> modelOK model \<Longrightarrow>
         registryOK b' \<and> modelOK model'"
proof (induction kvs arbitrary: b model)
  case Nil
  then show ?case by simp
next
  case (Cons kv kvs)
  obtain k v where kv: "kv = (k, v)" by (cases kv)
  let ?b1 = "case Ref v of None \<Rightarrow> b | Some r \<Rightarrow> b(r \<mapsto> lookupModel sub r)"
  let ?m1 = "if k \<in> set (Required subModel)
         then model\<lparr>Properties := AList.update k v (Properties model),
                    Required := Required model @ [k]\<rparr>
         else model\<lparr>Properties := AList.update k v (Properties model)\<rparr>"
  from Cons.prems(2) kv have v: "shapeOK v" and rest: "list_all (\<lambda>kv. shapeOK (snd kv)) kvs"
    by simp_all
  have b1: "registryOK ?b1"
    using Cons.prems(3) by (cases "Ref v") (simp_all add: registryOK_upd modelOK_lookup[OF sub])
  have m1: "modelOK ?m1"
    using modelOK_update[OF Cons.prems(4) v, of k] by (simp add: modelOK_def)
  from Cons.prems(1) have "mergeProperties subModel sub kvs (?b1, ?m1) = (b', model')"
    unfolding kv mergeProperties_Cons .
  from Cons.IH[OF this rest b1 m1] show ?case .
qed

lemma buildProperty_ok:
  assumes rec: "recKeepsOK rec"
    and run: "buildProperty rec e field model modelName b = Some (np, b', model')"
    and b: "registryOK b" and model: "modelOK model"
  shows "registryOK b' \<and> modelOK model'"
  using buildProperty_cases[OF run]
proof (elim disjE conjE exE)
  assume "b' = b" "model' = model"
  with b model show ?thesis by simp
next
  fix st nm r
  assume "model' = model" "rec st nm b = Some (b', r)"
  with recKeepsOKD[OF rec b] model show ?thesis by blast
next
  fix sub r
  assume sub: "rec (FieldType field) [] Map.empty = Some (sub, r)"
    and merge: "mergeProperties (lookupModel sub (keyFrom (FieldType field))) sub
              (Properties (lookupModel sub (keyFrom (FieldType field)))) (b, model) = (b', model')"
  from recKeepsOKD[OF rec registryOK_empty sub] have subok: "registryOK sub" .
  from modelOK_lookup[OF subok]
  have "list_all (\<lambda>kv. shapeOK (snd kv)) (Properties (lookupModel sub (keyFrom (FieldType field))))"
    by (simp add: modelOK_def)
  from mergeProperties_ok[OF subok merge this b model] show ?thesis .
qed

lemma buildProperty_shape:
  assumes run: "buildProperty rec e field model modelName b = Some (np, b', model')"
    and ne: "fst np \<noteq> []"
  shows "shapeOK (snd np)"
  using run
proof (cases rule: buildProperty_branches)
  case skipped
  with ne show ?thesis by simp
next
  case (direct p)
  then show ?thesis by (auto simp: shapeOK_simple)
next
  case struct
  from buildStructTypeProperty_shape[OF struct(5) ne] show ?thesis .
next
  case array
  from buildArrayTypeProperty_shape[OF array(3)] show ?thesis .
next
  case pointer
  from buildPointerTypeProperty_shape[OF pointer(3)] show ?thesis .
next
  case (nested r)
  then show ?thesis by (simp add: shapeOK_simple)
qed

lemma addField_ok:
  assumes rec: "recKeepsOK rec"
    and run: "addField rec e modelName field s = Some s'"
    and s: "registryOK (fst s)" "modelOK (snd s)"
  shows "registryOK (fst s') \<and> modelOK (snd s')"
proof -
  from addField_cases[OF run] obtain jn p sm0 where
    bp: "buildProperty rec e field (snd s) modelName (fst s) = Some ((jn, p), fst s', sm0)"
    and s': "if jn = [] then snd s' = sm0
            else snd s' = sm0\<lparr>Required := (if isPropertyRequired field then Required sm0 @ [jn] else Required sm0),
                   Properties := AList.update jn
                     (if TagDescription field \<noteq> [] then p\<lparr>Description := TagDescription field\<rparr> else p)
                     (Properties sm0)\<rparr>"
    by blast
  from buildProperty_ok[OF rec bp s] have ok: "registryOK (fst s')" "modelOK sm0" by simp_all
  show ?thesis
  proof (cases "jn = []")
    case True
    with s' ok show ?thesis by simp
  next
    case False
    with buildProperty_shape[OF bp] have "shapeOK p" by simp
    then have "shapeOK (if TagDescription field \<noteq> [] then p\<lparr>Description := TagDescription field\<rparr> else p)"
      by (simp add: shapeOK_Description)
    from modelOK_update[OF ok(2) this, of jn] False s' ok(1) show ?thesis
      by (simp add: modelOK_def)
  qed
qed

lemma addFields_ok:
  assumes rec: "recKeepsOK rec"
  shows "addFields rec e modelName fs s = Some s' \<Longrightarrow> registryOK (fst s) \<Longrightarrow> modelOK (snd s) \<Longrightarrow>
         registryOK (fst s') \<and> modelOK (snd s')"
proof (induction fs arbitrary: s)
  case Nil
  then show ?case by simp
next
  case (Cons f fs)
  from Cons.prems(1) obtain s1 where s1: "addField rec e modelName f s = Some s1"
    and rest: "addFields rec e modelName fs s1 = Some s'"
    by (rule addFields_Cons_Some)
  from addField_ok[OF rec s1 Cons.prems(2,3)] Cons.IH[OF rest] show ?case by blast
qed

lemma addModelBody_ok:
  assumes rec: "recKeepsOK rec"
    and run: "addModelBody rec e st no b = Some (b', r)"
    and b: "registryOK b"
  shows "registryOK b' \<and> (case r of None \<Rightarrow> True | Some m \<Rightarrow> modelOK m)"
  using run
proof (cases rule: addModelBody_cases)
  case skip
  with b show ?thesis by simp
next
  case (list r')
  from recKeepsOKD[OF rec registryOK_upd[OF b modelOK_placeholder] list(4)] list(5)
  show ?thesis by (simp add: modelOK_placeholder)
next
  case other
  with b show ?thesis by (simp add: registryOK_upd modelOK_placeholder)
next
  case (struct b2 sm')
  from addFields_ok[OF rec struct(4)] b
  have "registryOK b2 \<and> modelOK sm'" by (simp add: registryOK_upd modelOK_placeholder)
  with struct(5,6) show ?thesis by (simp add: registryOK_upd)
qed

lemma addModel_recKeepsOK: "recKeepsOK (addModel n e)"
proof (induction n)
  case 0
  then show ?case by (simp add: recKeepsOK_def)
next
  case (Suc n)
  show ?case
    unfolding recKeepsOK_def
  proof (intro allI impI)
    fix st nm b b' r
    assume b: "registryOK b" and "addModel (Suc n) e st nm b = Some (b', r)"
    then have "addModelBody (addModel n e) e st nm b = Some (b', r)" by simp
    from addModelBody_ok[OF Suc this b] show "registryOK b'" by simp
  qed
qed


lemma shapeOK_iff:
  "shapeOK p \<longleftrightarrow>
     (\<exists>t. Type p = Some t \<and> t \<noteq> ''array'' \<and> Ref p = None \<and> Items p = None) \<or>
     (Type p = None \<and> (\<exists>r. Ref p = Some r) \<and> Items p = None) \<or>
     (Type p = Some ''array'' \<and> Ref p = None \<and> (\<exists>it. Items p = Some it \<and> populated it))"
  by (cases "Type p"; cases "Items p") (auto simp: shapeOK_def)

section \<open>The Model that addModel returns\<close>

lemma mergeProperties_ModelId:
  "mergeProperties subModel sub kvs (b, model) = (b', model') \<Longrightarrow> ModelId model' = ModelId model"
proof (induction kvs arbitrary: b model)
  case Nil
  then show ?case by simp
next
  case (Cons kv kvs)
  obtain k v where kv: "kv = (k, v)" by (cases kv)
  from Cons.prems show ?case
    unfolding kv mergeProperties_Cons by (auto dest!: Cons.IH split: if_splits)
qed

lemma buildProperty_ModelId:
  assumes "buildProperty rec e field model modelName b = Some (np, b', model')"
  shows "ModelId model' = ModelId model"
  using buildProperty_cases[OF assms] by (auto dest: mergeProperties_ModelId)

lemma addField_ModelId:
  assumes "addField rec e modelName field s = Some s'"
  shows "ModelId (snd s') = ModelId (snd s)"
proof -
  from addField_cases[OF assms] obtain jn p sm0 where
    bp: "buildProperty rec e field (snd s) modelName (fst s) = Some ((jn, p), fst s', sm0)"
    and s': "ModelId (snd s') = ModelId sm0"
    by (auto split: if_splits)
  from buildProperty_ModelId[OF bp] s' show ?thesis by simp
qed

lemma addFields_ModelId:
  "addFields rec e modelName fs s = Some s' \<Longrightarrow> ModelId (snd s') = ModelId (snd s)"
proof (induction fs arbitrary: s)
  case Nil
  then show ?case by simp
next
  case (Cons f fs)
  from Cons.prems obtain s1 where s1: "addField rec e modelName f s = Some s1"
    and rest: "addFields rec e modelName fs s1 = Some s'"
    by (rule addFields_Cons_Some)
  from addField_ModelId[OF s1] Cons.IH[OF rest] show ?case by simp
qed

lemma addModel_fresh_result:
  assumes run: "addModel n e st no b = Some (b', r)"
    and fresh: "\<not> isPrimitiveType (nameOf st no)" "b (nameOf st no) = None"
  shows "\<exists>m. r = Some m \<and> ModelId m = nameOf st no"
proof (cases n)
  case 0
  with run show ?thesis by simp
next
  case (Suc k)
  with run have "addModelBody (addModel k e) e st no b = Some (b', r)" by simp
  then show ?thesis
  proof (cases rule: addModelBody_cases)
    case skip
    with fresh show ?thesis by simp
  next
    case (list r')
    then show ?thesis by (simp add: placeholder_def)
  next
    case other
    then show ?thesis by (simp add: placeholder_def)
  next
    case (struct b2 sm')
    from addFields_ModelId[OF struct(4)] struct(6) show ?thesis by (simp add: placeholder_def)
  qed
qed

lemma hook_run:
  "map_option snd (addModel 3 hookEnv (Named ''main'' ''S'') [] Map.empty) = Some (Some hookSampleModel)"
  by code_simp

section \<open>Names and entries of the fields\<close>

lemma jsonNameOfField_tag:
  "jsonNameOfField field =
     (if tagNamePart field = ''-'' then []
      else if tagNamePart field \<noteq> [] then tagNamePart field
      else FieldName field)"
  by (cases "TagJson field = []") (simp_all add: jsonNameOfField_def tagNamePart_def Let_def)

lemma buildArrayTypeProperty_name:
  "buildArrayTypeProperty rec e field jsonName modelName b = Some (np, b') \<Longrightarrow> fst np = jsonName"
  unfolding buildArrayTypeProperty_def Let_def by (auto split: option.splits)

lemma buildPointerTypeProperty_name:
  "buildPointerTypeProperty rec e field jsonName modelName b = Some (np, b') \<Longrightarrow> fst np = jsonName"
  unfolding buildPointerTypeProperty_def Let_def by (auto split: option.splits if_splits)

lemma buildProperty_name:
  assumes run: "buildProperty rec e field model modelName b = Some (np, b', model')"
    and nf: "\<not> flattened e field"
  shows "fst np = jsonNameOfField field \<and> model' = model"
  using run
proof (cases rule: buildProperty_branches)
  case struct
  from struct(5) show ?thesis
  proof (cases rule: buildStructTypeProperty_branches)
    case (embedded sub r)
    with struct nf show ?thesis by (simp add: flattened_def)
  qed simp_all
next
  case array
  with buildArrayTypeProperty_name[OF array(3)] show ?thesis by simp
next
  case pointer
  with buildPointerTypeProperty_name[OF pointer(3)] show ?thesis by simp
qed simp_all

lemma buildProperty_skip:
  "jsonNameOfField field = [] \<Longrightarrow>
   buildProperty rec e field model modelName b = Some (([], zeroProperty), b, model)"
  by (simp add: buildProperty_def)

lemma addField_skip:
  "jsonNameOfField field = [] \<Longrightarrow> addField rec e modelName field s = Some s"
  by (simp add: addField_def buildProperty_skip)

lemma keys_update: "fst ` set (AList.update k v xs) = insert k (fst ` set xs)"
  by (simp add: dom_update)

lemma addField_entry:
  assumes run: "addField rec e modelName field s = Some s'"
    and jn: "jsonNameOfField field \<noteq> []" and nf: "\<not> flattened e field"
  shows "jsonNameOfField field \<in> fst ` set (Properties (snd s')) \<and>
         (isPropertyRequired field \<longrightarrow> jsonNameOfField field \<in> set (Required (snd s')))"
proof -
  from addField_cases[OF run] obtain jn' p sm0 where
    bp: "buildProperty rec e field (snd s) modelName (fst s) = Some ((jn', p), fst s', sm0)"
    and s': "if jn' = [] then snd s' = sm0
            else snd s' = sm0\<lparr>Required := (if isPropertyRequired field then Required sm0 @ [jn'] else Required sm0),
                   Properties := AList.update jn'
                     (if TagDescription field \<noteq> [] then p\<lparr>Description := TagDescription field\<rparr> else p)
                     (Properties sm0)\<rparr>"
    by blast
  from buildProperty_name[OF bp nf] have "jn' = jsonNameOfField field" by simp
  with s' jn show ?thesis by (simp add: keys_update)
qed

lemma covers_refl: "covers m m"
  by (simp add: covers_def)

lemma covers_trans: "covers a b \<Longrightarrow> covers b c \<Longrightarrow> covers a c"
  unfolding covers_def by (meson subset_trans)

lemma mergeProperties_covers:
  "mergeProperties subModel sub kvs (b, model) = (b', model') \<Longrightarrow> covers model model'"
proof (induction kvs arbitrary: b model)
  case Nil
  then show ?case by (simp add: covers_refl)
next
  case (Cons kv kvs)
  obtain k v where kv: "kv = (k, v)" by (cases kv)
  let ?m1 = "if k \<in> set (Required subModel)
         then model\<lparr>Properties := AList.update k v (Properties model),
                    Required := Required model @ [k]\<rparr>
         else model\<lparr>Properties := AList.update k v (Properties model)\<rparr>"
  have "covers model ?m1" by (auto simp: covers_def keys_update)
  moreover from Cons.prems have "covers ?m1 model'"
    unfolding kv mergeProperties_Cons by (rule Cons.IH)
  ultimately show ?case by (rule covers_trans)
qed

lemma buildProperty_covers:
  assumes "buildProperty rec e field model modelName b = Some (np, b', model')"
  shows "covers model model'"
  using buildProperty_cases[OF assms] by (auto intro: covers_refl dest: mergeProperties_covers)

lemma addField_covers:
  assumes run: "addField rec e modelName field s = Some s'"
  shows "covers (snd s) (snd s')"
proof -
  from addField_cases[OF run] obtain jn' p sm0 where
    bp: "buildProperty rec e field (snd s) modelName (fst s) = Some ((jn', p), fst s', sm0)"
    and s': "if jn' = [] then snd s' = sm0
            else snd s' = sm0\<lparr>Required := (if isPropertyRequired field then Required sm0 @ [jn'] else Required sm0),
                   Properties := AList.update jn'
                     (if TagDescription field \<noteq> [] then p\<lparr>Description := TagDescription field\<rparr> else p)
                     (Properties sm0)\<rparr>"
    by blast
  have "covers sm0 (snd s')"
    using s' by (cases "jn' = []") (auto simp: covers_def keys_update)
  with buildProperty_covers[OF bp] show ?thesis by (rule covers_trans)
qed

lemma addFields_covers:
  "addFields rec e modelName fs s = Some s' \<Longrightarrow> covers (snd s) (snd s')"
proof (induction fs arbitrary: s)
  case Nil
  then show ?case by (simp add: covers_refl)
next
  case (Cons f fs)
  from Cons.prems obtain s1 where s1: "addField rec e modelName f s = Some s1"
    and rest: "addFields rec e modelName fs s1 = Some s'"
    by (rule addFields_Cons_Some)
  from addField_covers[OF s1] Cons.IH[OF rest] show ?case by (rule covers_trans)
qed

lemma addFields_entry:
  "addFields rec e modelName fs s = Some s' \<Longrightarrow> field \<in> set fs \<Longrightarrow>
   jsonNameOfField field \<noteq> [] \<Longrightarrow> \<not> flattened e field \<Longrightarrow>
   jsonNameOfField field \<in> fst ` set (Properties (snd s')) \<and>
   (isPropertyRequired field \<longrightarrow> jsonNameOfField field \<in> set (Required (snd s')))"
proof (induction fs arbitrary: s)
  case Nil
  then show ?case by simp
next
  case (Cons f fs)
  from Cons.prems(1) obtain s1 where s1: "addField rec e modelName f s = Some s1"
    and rest: "addFields rec e modelName fs s1 = Some s'"
    by (rule addFields_Cons_Some)
  show ?case
  proof (cases "field = f")
    case True
    from addField_entry[OF s1] True Cons.prems(3,4)
    have "jsonNameOfField field \<in> fst ` set (Properties (snd s1)) \<and>
          (isPropertyRequired field \<longrightarrow> jsonNameOfField field \<in> set (Required (snd s1)))"
      by simp
    with addFields_covers[OF rest] show ?thesis by (auto simp: covers_def)
  next
    case False
    with Cons.prems(2) have "field \<in> set fs" by simp
    from Cons.IH[OF rest this Cons.prems(3,4)] show ?thesis .
  qed
qed

lemma tag_run:
  "map_option snd (addModel 1 tagEnv (Named ''main'' ''T'') [] Map.empty) = Some (Some tagModel)"
  by code_simp

lemma tag_facts:
  "kindOf tagEnv (Named ''main'' ''T'') = KStruct"
  "fieldsOf tagEnv (Named ''main'' ''T'') =
     [StructField ''Id'' (Basic ''int'') '',omitempty'' [] False,
      StructField ''Secret'' (Basic ''string'') ''-'' [] False]"
  "tagNamePart (StructField ''Id'' (Basic ''int'') '',omitempty'' [] False) = []"
  "tagNamePart (StructField ''Secret'' (Basic ''string'') ''-'' [] False) = ''-''"
  "\<not> flattened tagEnv (StructField ''Id'' (Basic ''int'') '',omitempty'' [] False)"
  by (simp_all add: kindOf_def underlying_def tagEnv_def plainEnv_def fieldsOf_def tagNamePart_def
      flattened_def)

section \<open>Merging an embedded struct\<close>










section \<open>A larger bound on the recursion changes no result\<close>

lemma recLeD: "recLe rec rec' \<Longrightarrow> rec st nm b = Some r \<Longrightarrow> rec' st nm b = Some r"
  unfolding recLe_def by blast

lemma rec_call_mono:
  assumes le: "recLe rec rec'"
    and run: "(case rec st nm b of None \<Rightarrow> None | Some (b', r) \<Rightarrow> Some (f b' r)) = Some x"
  shows "(case rec' st nm b of None \<Rightarrow> None | Some (b', r) \<Rightarrow> Some (f b' r)) = Some x"
proof (cases "rec st nm b")
  case None
  with run show ?thesis by simp
next
  case (Some y)
  from recLeD[OF le Some] Some run show ?thesis by simp
qed

lemma buildArrayTypeProperty_mono:
  assumes le: "recLe rec rec'"
    and run: "buildArrayTypeProperty rec e field jsonName modelName b = Some x"
  shows "buildArrayTypeProperty rec' e field jsonName modelName b = Some x"
  using run unfolding buildArrayTypeProperty_def Let_def
  by (rule rec_call_mono[OF le])

lemma buildPointerTypeProperty_mono:
  assumes le: "recLe rec rec'"
    and run: "buildPointerTypeProperty rec e field jsonName modelName b = Some x"
  shows "buildPointerTypeProperty rec' e field jsonName modelName b = Some x"
proof (cases "kindOf e (elemOf e (FieldType field)) = KSlice \<or> kindOf e (elemOf e (FieldType field)) = KArray")
  case True
  with run show ?thesis
    unfolding buildPointerTypeProperty_def Let_def
    by (simp only: if_True) (rule rec_call_mono[OF le])
next
  case False
  with run show ?thesis
    unfolding buildPointerTypeProperty_def Let_def
    by (simp only: if_False) (rule rec_call_mono[OF le])
qed

lemma buildStructTypeProperty_mono:
  assumes le: "recLe rec rec'"
    and run: "buildStructTypeProperty rec e field jsonName model b = Some x"
  shows "buildStructTypeProperty rec' e field jsonName model b = Some x"
proof -
  obtain np b' model' where x: "x = (np, b', model')" by (cases x)
  from run[unfolded x] show ?thesis
  proof (cases rule: buildStructTypeProperty_branches)
    case (anonymous r)
    from recLeD[OF le anonymous(4)] anonymous(1,2,3) show ?thesis
      unfolding buildStructTypeProperty_def Let_def x by simp
  next
    case (embedded sub r)
    from recLeD[OF le embedded(5)] embedded(1,2,3,4,6,7) show ?thesis
      unfolding buildStructTypeProperty_def Let_def x by simp
  next
    case (simple r)
    from recLeD[OF le simple(5)] simple(1,2,3,4) show ?thesis
      unfolding buildStructTypeProperty_def Let_def x by auto
  qed
qed

lemma withModel_mono:
  "(\<And>y. r = Some y \<Longrightarrow> r' = Some y) \<Longrightarrow> withModel model r = Some x \<Longrightarrow> withModel model r' = Some x"
  by (cases r) (auto simp: withModel_def)

lemma buildProperty_mono:
  assumes le: "recLe rec rec'"
    and run: "buildProperty rec e field model modelName b = Some x"
  shows "buildProperty rec' e field model modelName b = Some x"
proof -
  let ?jn = "jsonNameOfField field" and ?ft = "FieldType field"
  show ?thesis
  proof (cases "length ?jn = 0 \<or> marshaler e ?ft \<or> taggedAsString field")
    case True
    with run show ?thesis unfolding buildProperty_def Let_def by auto
  next
    case False
    then have c: "length ?jn \<noteq> 0" "\<not> marshaler e ?ft" "\<not> taggedAsString field" by simp_all
    show ?thesis
    proof (cases "kindOf e ?ft")
      case KStruct
      with run c buildStructTypeProperty_mono[OF le] show ?thesis
        unfolding buildProperty_def Let_def by simp
    next
      case KSlice
      with run c withModel_mono[OF buildArrayTypeProperty_mono[OF le]] show ?thesis
        unfolding buildProperty_def Let_def by simp
    next
      case KArray
      with run c withModel_mono[OF buildArrayTypeProperty_mono[OF le]] show ?thesis
        unfolding buildProperty_def Let_def by simp
    next
      case KPtr
      with run c withModel_mono[OF buildPointerTypeProperty_mono[OF le]] show ?thesis
        unfolding buildProperty_def Let_def by simp
    next
      case KString
      with run c show ?thesis unfolding buildProperty_def Let_def by simp
    next
      case KMap
      with run c show ?thesis unfolding buildProperty_def Let_def by simp
    next
      case KOther
      show ?thesis
      proof (cases "isPrimitiveType (typeString ?ft) \<or> typeName ?ft \<noteq> []")
        case True
        with run c KOther show ?thesis unfolding buildProperty_def Let_def by auto
      next
        case False
        with run c KOther rec_call_mono[OF le, where st="?ft" and nm="modelName @ ''.'' @ ?jn"
            and b=b and x=x
            and f="\<lambda>b' r. ((?jn, zeroProperty\<lparr>Ref := Some (modelName @ ''.'' @ ?jn)\<rparr>), b', model)"]
        show ?thesis unfolding buildProperty_def Let_def by simp
      qed
    qed
  qed
qed

lemma addField_mono:
  assumes le: "recLe rec rec'"
    and run: "addField rec e modelName field s = Some s'"
  shows "addField rec' e modelName field s = Some s'"
proof (cases "buildProperty rec e field (snd s) modelName (fst s)")
  case None
  with run show ?thesis by (simp add: addField_def)
next
  case (Some x)
  from buildProperty_mono[OF le Some] Some run show ?thesis by (simp add: addField_def)
qed

lemma addFields_mono:
  assumes le: "recLe rec rec'"
  shows "addFields rec e modelName fs s = Some s' \<Longrightarrow> addFields rec' e modelName fs s = Some s'"
proof (induction fs arbitrary: s)
  case Nil
  then show ?case by simp
next
  case (Cons f fs)
  from Cons.prems obtain s1 where s1: "addField rec e modelName f s = Some s1"
    and rest: "addFields rec e modelName fs s1 = Some s'"
    by (rule addFields_Cons_Some)
  from addField_mono[OF le s1] Cons.IH[OF rest] show ?case by simp
qed

lemma addModelBody_mono:
  assumes le: "recLe rec rec'"
    and run: "addModelBody rec e st no b = Some x"
  shows "addModelBody rec' e st no b = Some x"
proof -
  obtain b' r where x: "x = (b', r)" by (cases x)
  from run[unfolded x] show ?thesis
  proof (cases rule: addModelBody_cases)
    case skip
    then show ?thesis by (simp add: x addModelBody_skip)
  next
    case (list r')
    have "addModelBody rec' e st no b =
        (case rec' (elemOf e st) [] (b(nameOf st no \<mapsto> placeholder (nameOf st no))) of
           None \<Rightarrow> None
         | Some (b2, r) \<Rightarrow> Some (b2, Some (placeholder (nameOf st no))))"
      using list(1,2,3) by (rule addModelBody_list)
    also have "\<dots> = Some x"
      unfolding recLeD[OF le list(4)] x using list(5) by simp
    finally show ?thesis .
  next
    case other
    show ?thesis
    proof (cases "kindOf e st = KSlice \<or> kindOf e st = KArray")
      case True
      from run show ?thesis
        unfolding addModelBody_list[where b=b and st=st and no=no and e=e, OF other(1,2) True]
        by (rule rec_call_mono[OF le])
    next
      case False
      with other have "addModelBody rec' e st no b =
          Some (b(nameOf st no \<mapsto> placeholder (nameOf st no)), Some (placeholder (nameOf st no)))"
        by (intro addModelBody_other) simp_all
      with other show ?thesis by (simp add: x)
    qed
  next
    case (struct b2 sm')
    have "addModelBody rec' e st no b =
        (case addFields rec' e (nameOf st no) (fieldsOf e st)
                (b(nameOf st no \<mapsto> placeholder (nameOf st no)), placeholder (nameOf st no)) of
           None \<Rightarrow> None
         | Some (b2, sm') \<Rightarrow> Some (b2(nameOf st no \<mapsto> sm'), Some sm'))"
      using struct(1,2,3) by (rule addModelBody_struct)
    also have "\<dots> = Some x"
      unfolding addFields_mono[OF le struct(4)] x using struct(5,6) by simp
    finally show ?thesis .
  qed
qed

lemma addModel_Suc_mono: "recLe (addModel n e) (addModel (Suc n) e)"
proof (induction n)
  case 0
  then show ?case by (simp add: recLe_def)
next
  case (Suc n)
  show ?case
    unfolding recLe_def
  proof (intro allI impI)
    fix st nm b r
    assume "addModel (Suc n) e st nm b = Some r"
    then have "addModelBody (addModel n e) e st nm b = Some r" by simp
    from addModelBody_mono[OF Suc this]
    show "addModel (Suc (Suc n)) e st nm b = Some r"
      unfolding addModel.simps(2)[of "Suc n"] .
  qed
qed

lemma addModel_more_fuel:
  "addModel n e st no b = Some r \<Longrightarrow> addModel (n + k) e st no b = Some r"
proof (induction k)
  case 0
  then show ?case by simp
next
  case (Suc k)
  from recLeD[OF addModel_Suc_mono Suc.IH[OF Suc.prems]] show ?case by simp
qed


section \<open>Cycles through pointers\<close>

text \<open>
  With pointer fields only, the placeholder stops the recursion: two structs that point
  to each other are both registered, each with a property that refers to the other.
\<close>

lemma mutual_pointers_run:
  "map_option (\<lambda>(b, r). (propertyOf b ''main.A'' ''B'', propertyOf b ''main.B'' ''A''))
     (addModel 3 mutualEnv (Named ''main'' ''A'') [] Map.empty)
   = Some (Some \<lparr>Type = None, Format = [], Ref = Some ''main.B'', Items = None, Description = []\<rparr>,
           Some \<lparr>Type = None, Format = [], Ref = Some ''main.A'', Items = None, Description = []\<rparr>)"
  by code_simp

section \<open>The claims\<close>

text \<open>
  C1. The claim is that registering any struct with a pointer to itself returns. For
  \<open>type A struct { Self *A; E }\<close> with \<open>type E struct { Back *A }\<close> it does not: the
  embedded \<open>E\<close> is built in a fresh sub-registry, where \<open>A\<close> is not present, so the
  visit of \<open>Back\<close> starts \<open>A\<close> again, which embeds \<open>E\<close> again. No depth of recursion is
  enough: \<open>addModel\<close> returns for no amount of fuel.
\<close>

theorem embedded_cycle_never_returns:
  "\<forall>n. addModel n embeddedCycleEnv (Named ''main'' ''A'') [] Map.empty = None"
  by (simp add: embedded_cycle_none)

text \<open>
  C2. Whenever a registration returns (without the panic of a nil hook result), the same
  registration run again, with any positive depth bound, returns the same registry and
  the same list of hook calls: \<open>addModel\<close> finds the name classified primitive or
  present and returns nil, so \<open>addModelFrom\<close> does not reach the hook.
\<close>

theorem register_twice:
  assumes "addModelFrom n e sample s = Some (Inr s')"
  shows "addModelFrom (Suc m) e sample s' = Some (Inr s')"
proof -
  from assms obtain b1 r where run: "addModel n e sample [] (fst s) = Some (b1, r)"
    by (cases "addModel n e sample [] (fst s)") (auto simp: addModelFrom_def)
  from addModel_registers[OF run]
  have reg: "isPrimitiveType (nameOf sample []) \<or> b1 (nameOf sample []) \<noteq> None" .
  have "dom b1 \<subseteq> dom (fst s')"
  proof (cases r)
    case None
    with assms run show ?thesis by (auto simp: addModelFrom_def)
  next
    case (Some m)
    show ?thesis
    proof (cases "buildable e sample")
      case None
      with assms run Some show ?thesis by (auto simp: addModelFrom_def)
    next
      case (Some PostBuildModel)
      with assms run \<open>r = Some m\<close> obtain m' where
        "fst s' = (\<lambda>k. map_option (InPlace (PostBuildModel m) k) (b1 k))(ModelId m' \<mapsto> m')"
        by (cases "Returned (PostBuildModel m)") (auto simp: addModelFrom_def)
      then show ?thesis by (auto simp: dom_def)
    qed
  qed
  then have "b1 (nameOf sample []) \<noteq> None \<Longrightarrow> fst s' (nameOf sample []) \<noteq> None"
    by (auto simp: dom_def)
  with reg have "isPrimitiveType (nameOf sample []) \<or> fst s' (nameOf sample []) \<noteq> None"
    by blast
  then have "addModel (Suc m) e sample [] (fst s') = Some (fst s', None)"
    by (rule addModel_present)
  then show ?thesis by (simp add: addModelFrom_def)
qed

text \<open>Registering \<open>A\<close> of \<open>type A struct { Self *A }\<close> into the empty registry, twice.\<close>

theorem register_twice_witness:
  "addModelFrom (Suc (Suc 0)) selfEnv (Named ''main'' ''A'') (Map.empty, [])
     = Some (Inr (Map.empty(''main.A'' \<mapsto> selfModel), [])) \<and>
   addModelFrom (Suc 0) selfEnv (Named ''main'' ''A'') (Map.empty(''main.A'' \<mapsto> selfModel), [])
     = Some (Inr (Map.empty(''main.A'' \<mapsto> selfModel), []))"
proof -
  have first: "addModelFrom (Suc (Suc 0)) selfEnv (Named ''main'' ''A'') (Map.empty, [])
     = Some (Inr (Map.empty(''main.A'' \<mapsto> selfModel), []))"
    by (simp add: addModelFrom_def self_run selfEnv_def[THEN arg_cong, of buildable] plainEnv_def
        del: addModel.simps)
  from first register_twice[OF first, of 0] show ?thesis by simp
qed

text \<open>
  C3. A field \<open>Data []uint8\<close> of \<open>type S struct\<close>: \<open>getElementTypeName\<close> already maps
  the element name \<open>uint8\<close> to \<open>integer\<close>, and \<open>buildArrayTypeProperty\<close> then asks
  \<open>isPrimitiveType\<close> about \<open>integer\<close>, which is not on the list. The property gets
  \<open>Items.Ref = "integer"\<close> and no \<open>Items.Type\<close>, and a Model named \<open>integer\<close> is registered.
\<close>

theorem array_of_uint8_items_ref:
  "map_option (\<lambda>(b, r). (propertyOf b ''main.S'' ''Data'', b ''integer''))
     (addModel 2
        (plainEnv [((''main'', ''S''),
           StructT ''struct { Data []uint8 }'' [plainField ''Data'' (SliceT (Basic ''uint8''))])])
        (Named ''main'' ''S'') [] Map.empty)
   = Some (Some \<lparr>Type = Some ''array'', Format = [], Ref = None,
                  Items = Some \<lparr>ItemType = None, ItemRef = Some ''integer''\<rparr>,
                  Description = []\<rparr>,
           Some \<lparr>ModelId = ''integer'', Required = [], Properties = []\<rparr>)"
  by code_simp

text \<open>
  C4. \<open>isPrimitiveType\<close> is a substring test on the list's text: \<open>Time\<close>, \<open>uint\<close> and
  \<open>t\<close> are classified primitive and are not names on the list. For
  \<open>type S struct { Stamps []foo.Time }\<close> with a struct \<open>foo.Time\<close>, the element is mapped
  directly (\<open>Items.Type = "Time"\<close>) and no Model is registered for \<open>foo.Time\<close>.
\<close>

theorem isPrimitiveType_substring:
  "isPrimitiveType ''Time'' \<and> ''Time'' \<notin> set primitiveAllowList \<and>
   isPrimitiveType ''uint'' \<and> ''uint'' \<notin> set primitiveAllowList \<and>
   isPrimitiveType ''t'' \<and> ''t'' \<notin> set primitiveAllowList \<and>
   map_option (\<lambda>(b, r). (propertyOf b ''main.S'' ''Stamps'', b ''foo.Time'', b ''Time''))
     (addModel 2
        (plainEnv [((''main'', ''S''),
           StructT ''struct { Stamps []foo.Time }''
             [plainField ''Stamps'' (SliceT (Named ''foo'' ''Time''))]),
          ((''foo'', ''Time''),
           StructT ''struct { Sec int64 }'' [plainField ''Sec'' (Basic ''int64'')])])
        (Named ''main'' ''S'') [] Map.empty)
   = Some (Some \<lparr>Type = Some ''array'', Format = [], Ref = None,
                  Items = Some \<lparr>ItemType = Some ''Time'', ItemRef = None\<rparr>,
                  Description = []\<rparr>, None, None)"
  by code_simp

text \<open>
  C5. \<open>isPropertyRequired\<close> compares only the first option of the tag with
  \<open>omitempty\<close>. The field \<open>Id int `json:"id,string,omitempty"`\<close> carries the modifier in
  second position: it is reported required, and \<open>id\<close> is in \<open>Required\<close> of the Model.
\<close>

theorem omitempty_second_option_required:
  "isPropertyRequired (StructField ''Id'' (Basic ''int'') ''id,string,omitempty'' [] False) \<and>
   ''omitempty'' \<in> set (tl (Split ''id,string,omitempty'' CHR '','')) \<and>
   map_option (\<lambda>(b, r). map_option Required (b ''main.S''))
     (addModel 1
        (plainEnv [((''main'', ''S''),
           StructT ''struct { Id int }''
             [StructField ''Id'' (Basic ''int'') ''id,string,omitempty'' [] False])])
        (Named ''main'' ''S'') [] Map.empty)
   = Some (Some [''id''])"
  by code_simp

text \<open>
  C6. In \<open>type S struct { P *[]string; Q []string }\<close> the field \<open>Q\<close> goes through
  \<open>buildArrayTypeProperty\<close> and gets \<open>Items.Type = "string"\<close>; the field \<open>P\<close>, a pointer
  to the same slice type, goes through \<open>buildPointerTypeProperty\<close>, which always fills
  \<open>Items.Ref\<close>: it gets \<open>Items.Ref = "string"\<close>.
\<close>

theorem pointer_to_slice_differs_from_slice:
  "map_option (\<lambda>(b, r). (propertyOf b ''main.S'' ''P'', propertyOf b ''main.S'' ''Q''))
     (addModel 2
        (plainEnv [((''main'', ''S''),
           StructT ''struct { P *[]string; Q []string }''
             [plainField ''P'' (PtrT (SliceT (Basic ''string''))),
              plainField ''Q'' (SliceT (Basic ''string''))])])
        (Named ''main'' ''S'') [] Map.empty)
   = Some (Some \<lparr>Type = Some ''array'', Format = [], Ref = None,
                  Items = Some \<lparr>ItemType = None, ItemRef = Some ''string''\<rparr>,
                  Description = []\<rparr>,
           Some \<lparr>Type = Some ''array'', Format = [], Ref = None,
                  Items = Some \<lparr>ItemType = Some ''string'', ItemRef = None\<rparr>,
                  Description = []\<rparr>)"
  by code_simp




text \<open>
  C8. Starting from a registry whose Models hold well-shaped properties only (the empty
  registry is one), every registry that \<open>addModel\<close> returns holds well-shaped properties
  only, and so does the Model it returns: each property is described by exactly one of a
  non-array \<open>Type\<close>, a \<open>Ref\<close>, or \<open>Type = "array"\<close> with populated \<open>Items\<close> (lemma
  \<open>shapeOK_iff\<close> spells the three cases out).
\<close>

theorem property_shape_invariant:
  assumes "registryOK b" and "addModel n e st nameOverride b = Some (b', r)"
  shows "registryOK b' \<and> (case r of None \<Rightarrow> True | Some m \<Rightarrow> modelOK m)"
proof (cases n)
  case 0
  with assms show ?thesis by simp
next
  case (Suc k)
  with assms have "addModelBody (addModel k e) e st nameOverride b = Some (b', r)" by simp
  from addModelBody_ok[OF addModel_recKeepsOK this assms(1)] show ?thesis .
qed

theorem property_shape_invariant_witness:
  "registryOK (Map.empty(''main.A'' \<mapsto> selfModel)) \<and> modelOK selfModel"
  using property_shape_invariant[OF registryOK_empty self_run] by simp

text \<open>
  C9, as the claim states it, fails: a top-level registration of a sample whose type is
  \<open>ModelBuildable\<close> does not call the hook when \<open>addModel\<close> returns nil. Registering
  \<open>S\<close> a second time calls the hook zero times (the list of calls is unchanged).
\<close>

theorem hook_skipped_on_second_registration:
  "(case buildable hookEnv (Named ''main'' ''S'') of None \<Rightarrow> False | Some h \<Rightarrow> True) \<and>
   (case addModelFrom 3 hookEnv (Named ''main'' ''S'') (Map.empty, []) of
      Some (Inr s1) \<Rightarrow>
        length (snd s1) = 1 \<and>
        map_option (map_sum id snd) (addModelFrom 3 hookEnv (Named ''main'' ''S'') s1)
          = Some (Inr (snd s1))
    | _ \<Rightarrow> False)"
  by code_simp


text \<open>
  C9, amended. For a sample whose type is \<open>ModelBuildable\<close>: when the sample's name is
  classified primitive or is present in the registry, \<open>addModelFrom\<close> changes neither the
  registry nor the list of hook calls; otherwise, whenever \<open>addModel\<close> returns, it returns
  the finished Model \<open>m\<close> of the sample, the hook is called exactly once, with \<open>m\<close>, and
  the registry after it holds the Model the hook returned under that Model's own \<open>Id\<close>,
  and no other new name (a nil result panics). No other call of a hook is recorded,
  whatever \<open>ModelBuildable\<close> types the traversal visits. Nothing is said of the other
  entries, which the hook may have changed through the pointer.
\<close>

theorem post_build_hook:
  assumes hook: "buildable e sample = Some PostBuildModel"
  shows "(isPrimitiveType (keyFrom sample) \<or> b (keyFrom sample) \<noteq> None \<longrightarrow>
            addModelFrom (Suc n) e sample (b, calls) = Some (Inr (b, calls))) \<and>
         (\<not> isPrimitiveType (keyFrom sample) \<and> b (keyFrom sample) = None \<longrightarrow>
            (\<forall>b' r. addModel n e sample [] b = Some (b', r) \<longrightarrow>
               (\<exists>m. r = Some m \<and> ModelId m = keyFrom sample \<and>
                  (case Returned (PostBuildModel m) of
                     None \<Rightarrow>
                       addModelFrom n e sample (b, calls) = Some (Inl NilPointerDereference)
                   | Some m' \<Rightarrow>
                       (\<exists>b''. addModelFrom n e sample (b, calls) = Some (Inr (b'', calls @ [m])) \<and>
                              b'' (ModelId m') = Some m' \<and> dom b'' = insert (ModelId m') (dom b'))))))"
proof (intro conjI impI allI)
  assume "isPrimitiveType (keyFrom sample) \<or> b (keyFrom sample) \<noteq> None"
  then have "isPrimitiveType (nameOf sample []) \<or> b (nameOf sample []) \<noteq> None"
    by (simp add: nameOf_def)
  from addModel_present[where b=b and st=sample and no="[]" and n=n and e=e, OF this]
  show "addModelFrom (Suc n) e sample (b, calls) = Some (Inr (b, calls))"
    by (simp add: addModelFrom_def del: addModel.simps)
next
  fix b' r
  assume fresh: "\<not> isPrimitiveType (keyFrom sample) \<and> b (keyFrom sample) = None"
    and run: "addModel n e sample [] b = Some (b', r)"
  from fresh have "\<not> isPrimitiveType (nameOf sample [])" "b (nameOf sample []) = None"
    by (simp_all add: nameOf_def)
  from addModel_fresh_result[OF run this] obtain m where m: "r = Some m" "ModelId m = keyFrom sample"
    by (auto simp: nameOf_def)
  have doms: "\<And>f. dom (\<lambda>k. map_option (f k) (b' k)) = dom b'"
    by (auto simp: dom_def)
  have "case Returned (PostBuildModel m) of
          None \<Rightarrow> addModelFrom n e sample (b, calls) = Some (Inl NilPointerDereference)
        | Some m' \<Rightarrow>
            (\<exists>b''. addModelFrom n e sample (b, calls) = Some (Inr (b'', calls @ [m])) \<and>
                   b'' (ModelId m') = Some m' \<and> dom b'' = insert (ModelId m') (dom b'))"
  proof (cases "Returned (PostBuildModel m)")
    case None
    with run hook m show ?thesis by (simp add: addModelFrom_def)
  next
    case (Some m')
    with run hook m have "addModelFrom n e sample (b, calls) =
        Some (Inr ((\<lambda>k. map_option (InPlace (PostBuildModel m) k) (b' k))(ModelId m' \<mapsto> m'),
                   calls @ [m]))"
      by (simp add: addModelFrom_def)
    moreover have "dom ((\<lambda>k. map_option (InPlace (PostBuildModel m) k) (b' k))(ModelId m' \<mapsto> m'))
        = insert (ModelId m') (dom b')"
      by (simp add: doms)
    ultimately show ?thesis using Some by simp
  qed
  with m show "\<exists>m. r = Some m \<and> ModelId m = keyFrom sample \<and>
       (case Returned (PostBuildModel m) of
          None \<Rightarrow> addModelFrom n e sample (b, calls) = Some (Inl NilPointerDereference)
        | Some m' \<Rightarrow>
            (\<exists>b''. addModelFrom n e sample (b, calls) = Some (Inr (b'', calls @ [m])) \<and>
                   b'' (ModelId m') = Some m' \<and> dom b'' = insert (ModelId m') (dom b')))"
    by blast
qed

text \<open>
  Registering \<open>S\<close> of package main, whose hook clears \<open>Required\<close>, into the empty
  registry, and then once more.
\<close>

theorem post_build_hook_witness:
  "\<exists>b' b''. addModel 3 hookEnv (Named ''main'' ''S'') [] Map.empty = Some (b', Some hookSampleModel) \<and>
     addModelFrom 3 hookEnv (Named ''main'' ''S'') (Map.empty, [])
       = Some (Inr (b'', [hookSampleModel])) \<and>
     b'' ''main.S'' = Some (hookSampleModel\<lparr>Required := []\<rparr>) \<and>
     addModelFrom (Suc 0) hookEnv (Named ''main'' ''S'') (b'', [hookSampleModel])
       = Some (Inr (b'', [hookSampleModel]))"
proof -
  from hook_run obtain b' where
    run: "addModel 3 hookEnv (Named ''main'' ''S'') [] Map.empty = Some (b', Some hookSampleModel)"
    by (cases "addModel 3 hookEnv (Named ''main'' ''S'') [] Map.empty") auto
  let ?hook = "\<lambda>m. \<lparr>Returned = Some (m\<lparr>Required := []\<rparr>), InPlace = (\<lambda>k entry. entry)\<rparr>"
  have hook: "buildable hookEnv (Named ''main'' ''S'') = Some ?hook"
    by (simp add: hookEnv_def)
  have key: "keyFrom (Named ''main'' ''S'') = ''main.S''" by (simp add: keyFrom_def)
  have fresh: "\<not> isPrimitiveType ''main.S''"
    by (simp add: isPrimitiveType_def primitiveNames_def)
  from post_build_hook[OF hook, of Map.empty 3 "[]"] run fresh
  obtain b'' where
    first: "addModelFrom 3 hookEnv (Named ''main'' ''S'') (Map.empty, []) = Some (Inr (b'', [hookSampleModel]))"
    and stored: "b'' ''main.S'' = Some (hookSampleModel\<lparr>Required := []\<rparr>)"
    by (auto simp: key hookSampleModel_def)
  from post_build_hook[OF hook, of b'' 0 "[hookSampleModel]"] stored
  have "addModelFrom (Suc 0) hookEnv (Named ''main'' ''S'') (b'', [hookSampleModel])
       = Some (Inr (b'', [hookSampleModel]))"
    by (simp add: key)
  with run first stored show ?thesis by blast
qed

text \<open>
  C10, as the claim states it, fails for an embedded struct: the field \<open>Inner\<close> of
  \<open>type Outer struct { Inner }\<close> has no json tag, its JSON name is computed as \<open>Inner\<close>,
  and yet the Model of \<open>Outer\<close> has no property \<open>Inner\<close> (the field is flattened: its
  own name is discarded).
\<close>

theorem embedded_field_skipped_without_dash:
  "jsonNameOfField (StructField ''Inner'' (Named ''main'' ''Inner'') [] [] True) = ''Inner'' \<and>
   tagNamePart (StructField ''Inner'' (Named ''main'' ''Inner'') [] [] True) \<noteq> ''-'' \<and>
   fieldsOf flatEnv (Named ''main'' ''Outer'')
     = [StructField ''Inner'' (Named ''main'' ''Inner'') [] [] True] \<and>
   map_option (\<lambda>(b, r). (propertyOf b ''main.Outer'' ''Inner'', map_option Required (b ''main.Outer'')))
     (addModel 2 flatEnv (Named ''main'' ''Outer'') [] Map.empty)
   = Some (None, Some [''A''])"
  by code_simp


text \<open>
  C10, amended. The JSON name of a field is the name part of its json tag when that part
  is neither empty nor \<open>-\<close>, the Go field name when the tag is absent or its name part is
  empty, and empty when the name part is \<open>-\<close>; for a field with a Go name it is empty
  exactly when the name part is \<open>-\<close>. A field whose name part is \<open>-\<close> leaves the
  registry and the Model under construction unchanged. Every other field of a struct that
  is not a flattened embedded struct has an entry under its JSON name in \<open>Properties\<close> of
  the Model that \<open>addModel\<close> returns, and in \<open>Required\<close> when \<open>isPropertyRequired\<close>
  holds of it.
\<close>

theorem json_name_of_field:
  "jsonNameOfField field =
     (if tagNamePart field = ''-'' then []
      else if tagNamePart field \<noteq> [] then tagNamePart field
      else FieldName field) \<and>
   (FieldName field \<noteq> [] \<longrightarrow> (jsonNameOfField field = [] \<longleftrightarrow> tagNamePart field = ''-'')) \<and>
   (tagNamePart field = ''-'' \<longrightarrow> addField rec e modelName field s = Some s) \<and>
   (\<forall>n st nameOverride b b' m.
      addModel n e st nameOverride b = Some (b', Some m) \<and> kindOf e st = KStruct \<and>
      field \<in> set (fieldsOf e st) \<and> tagNamePart field \<noteq> ''-'' \<and> FieldName field \<noteq> [] \<and>
      \<not> flattened e field \<longrightarrow>
      jsonNameOfField field \<in> fst ` set (Properties m) \<and>
      (isPropertyRequired field \<longrightarrow> jsonNameOfField field \<in> set (Required m)))"
proof (intro conjI impI allI)
  show "jsonNameOfField field =
     (if tagNamePart field = ''-'' then []
      else if tagNamePart field \<noteq> [] then tagNamePart field
      else FieldName field)"
    by (rule jsonNameOfField_tag)
next
  assume "FieldName field \<noteq> []"
  then show "jsonNameOfField field = [] \<longleftrightarrow> tagNamePart field = ''-''"
    by (simp add: jsonNameOfField_tag)
next
  assume "tagNamePart field = ''-''"
  then have "jsonNameOfField field = []" by (simp add: jsonNameOfField_tag)
  then show "addField rec e modelName field s = Some s" by (rule addField_skip)
next
  fix n st nameOverride b b' m
  assume a: "addModel n e st nameOverride b = Some (b', Some m) \<and> kindOf e st = KStruct \<and>
      field \<in> set (fieldsOf e st) \<and> tagNamePart field \<noteq> ''-'' \<and> FieldName field \<noteq> [] \<and>
      \<not> flattened e field"
  then have jn: "jsonNameOfField field \<noteq> []" by (simp add: jsonNameOfField_tag)
  from a obtain k where "n = Suc k" by (cases n) auto
  with a have "addModelBody (addModel k e) e st nameOverride b = Some (b', Some m)" by simp
  then have "jsonNameOfField field \<in> fst ` set (Properties m) \<and>
      (isPropertyRequired field \<longrightarrow> jsonNameOfField field \<in> set (Required m))"
  proof (cases rule: addModelBody_cases)
    case (struct b2 sm')
    from addFields_entry[OF struct(4)] a jn struct(6) show ?thesis by simp
  qed (use a in simp_all)
  then show "jsonNameOfField field \<in> fst ` set (Properties m)"
    and "isPropertyRequired field \<Longrightarrow> jsonNameOfField field \<in> set (Required m)"
    by simp_all
qed

theorem json_name_of_field_witness:
  "jsonNameOfField (StructField ''Id'' (Basic ''int'') '',omitempty'' [] False) = ''Id'' \<and>
   jsonNameOfField (StructField ''Secret'' (Basic ''string'') ''-'' [] False) = [] \<and>
   addField (addModel 0 tagEnv) tagEnv ''main.T''
     (StructField ''Secret'' (Basic ''string'') ''-'' [] False) (Map.empty, placeholder ''main.T'')
     = Some (Map.empty, placeholder ''main.T'') \<and>
   (\<exists>b'. addModel 1 tagEnv (Named ''main'' ''T'') [] Map.empty = Some (b', Some tagModel)) \<and>
   ''Id'' \<in> fst ` set (Properties tagModel)"
proof -
  let ?id = "StructField ''Id'' (Basic ''int'') '',omitempty'' [] False"
  let ?secret = "StructField ''Secret'' (Basic ''string'') ''-'' [] False"
  note id = json_name_of_field[of ?id "addModel 0 tagEnv" tagEnv "''main.T''"
      "(Map.empty, placeholder ''main.T'')"]
  note secret = json_name_of_field[of ?secret "addModel 0 tagEnv" tagEnv "''main.T''"
      "(Map.empty, placeholder ''main.T'')"]
  from tag_run obtain b' where
    run: "addModel 1 tagEnv (Named ''main'' ''T'') [] Map.empty = Some (b', Some tagModel)"
    by (cases "addModel 1 tagEnv (Named ''main'' ''T'') [] Map.empty") auto
  have 1: "jsonNameOfField ?id = ''Id''" using id by (simp add: tag_facts)
  have 2: "jsonNameOfField ?secret = []" using secret by (simp add: tag_facts)
  have 3: "addField (addModel 0 tagEnv) tagEnv ''main.T'' ?secret (Map.empty, placeholder ''main.T'')
     = Some (Map.empty, placeholder ''main.T'')"
    using secret by (simp add: tag_facts)
  from id have "addModel 1 tagEnv (Named ''main'' ''T'') [] Map.empty = Some (b', Some tagModel) \<and>
      kindOf tagEnv (Named ''main'' ''T'') = KStruct \<and>
      ?id \<in> set (fieldsOf tagEnv (Named ''main'' ''T'')) \<and> tagNamePart ?id \<noteq> ''-'' \<and>
      FieldName ?id \<noteq> [] \<and> \<not> flattened tagEnv ?id \<longrightarrow>
      jsonNameOfField ?id \<in> fst ` set (Properties tagModel)"
    by blast
  with run 1 have 4: "''Id'' \<in> fst ` set (Properties tagModel)" by (simp add: tag_facts)
  from 1 2 3 4 run show ?thesis by blast
qed

end
